theory Spec2Isabelle
  imports Complex_Main
begin

section \<open>Data model\<close>

text \<open>
  The bridge of \<^verbatim>\<open>dwave_bridge.h\<close> and \<^verbatim>\<open>dwave_sa.h\<close> and the two adapters of
  \<^verbatim>\<open>dwave_qpu.cpp\<close>. A C++ \<^verbatim>\<open>double\<close> is kept as a \<^typ>\<open>real\<close>: the only operation
  the code performs on a weight is the comparison \<^verbatim>\<open>w != 0.0\<close>. A C++ \<^verbatim>\<open>int\<close> is an
  \<^typ>\<open>int\<close>: the only arithmetic is the loop counter \<^verbatim>\<open>++i\<close> below \<^verbatim>\<open>n\<close>.
\<close>

type_synonym qubo_term = "int \<times> int \<times> real"

text \<open>\<^verbatim>\<open>struct DWaveResult { std::vector<int> best_sample; double best_weight; }\<close>\<close>

record DWaveResult =
  best_sample :: "int list"
  best_weight :: real

text \<open>
  An exception in flight: one derived from \<^verbatim>\<open>std::exception\<close>, carrying the text of
  \<^verbatim>\<open>what()\<close> (pybind11 raises every Python error and every failed cast as such), or
  anything else, which only \<^verbatim>\<open>catch (...)\<close> sees.
\<close>

datatype exn = StdException string | OtherException

text \<open>
  How a C++ call ends: it returns a value, an exception leaves it, or it has
  undefined behaviour (a write through a null pointer, a vector read out of range).
\<close>

datatype 'a outcome = Returned 'a | Propagated exn | Undefined_Behaviour

subsection \<open>The foreign runtime\<close>

text \<open>Python objects as far as the bridge builds or inspects them.\<close>

datatype pyobj =
    PyNone
  | PyBool bool
  | PyInt int
  | PyFloat real
  | PyStr string
  | PyTuple "pyobj list"
  | PyList "pyobj list"
  | PyObject string

text \<open>
  Every call the bridge makes into the embedded interpreter, in the vocabulary of
  pybind11: starting the interpreter, taking the GIL, imports, attribute reads, list
  conversion and insertion, calls, sequence conversion and indexing, and the casts
  back to \<^verbatim>\<open>int\<close>, \<^verbatim>\<open>bool\<close>, \<^verbatim>\<open>double\<close> and \<^verbatim>\<open>std::vector<int>\<close>.
\<close>

datatype pycall =
    Py_Initialize
  | Gil_Acquire
  | Import string
  | Attr pyobj string
  | As_List pyobj
  | List_Insert pyobj int pyobj
  | Invoke pyobj "pyobj list"
  | As_Sequence pyobj
  | Get_Item pyobj int
  | Cast_Int pyobj
  | Cast_Bool pyobj
  | Cast_Double pyobj
  | Cast_Int_Vector pyobj

text \<open>
  The interpreter itself is not part of the repository: it is a parameter. Its answer
  to a call may depend on every call made before (imports depend on \<^verbatim>\<open>sys.path\<close>),
  and is a value or an exception.
\<close>

record python =
  py_respond :: "pycall list \<Rightarrow> pycall \<Rightarrow> exn + pyobj"
  as_int :: "pycall list \<Rightarrow> pyobj \<Rightarrow> exn + int"
  as_bool :: "pycall list \<Rightarrow> pyobj \<Rightarrow> exn + bool"
  as_double :: "pycall list \<Rightarrow> pyobj \<Rightarrow> exn + real"
  as_int_vector :: "pycall list \<Rightarrow> pyobj \<Rightarrow> exn + int list"

subsection \<open>Collaborators of the adapters\<close>

text \<open>
  Modelled from the spec: \<^verbatim>\<open>QUBOInstance\<close> (\<^verbatim>\<open>problem/qubo_instance.h\<close> is not among the
  sources). The spec gives it \<^verbatim>\<open>size()\<close>, a linear weight for each index in
  \<^verbatim>\<open>[0,size)\<close> and an iterator over the nonzero off-diagonal entries \<^verbatim>\<open>((i,j), weight)\<close>.
  The size is a count of variables; the linear weights are the vector \<^verbatim>\<open>get_lin()\<close>
  returns; the iterator range is the list \<^verbatim>\<open>all_nonzero\<close>, in iteration order.
\<close>

record QUBOInstance =
  nvars :: nat
  linear_weights :: "real list"
  all_nonzero :: "((int \<times> int) \<times> real) list"

definition get_size :: "QUBOInstance \<Rightarrow> int" where
  "get_size qi = int (nvars qi)"

definition get_lin :: "QUBOInstance \<Rightarrow> real list" where
  "get_lin qi = linear_weights qi"

definition get_edge_count :: "QUBOInstance \<Rightarrow> int" where
  "get_edge_count qi = int (length (all_nonzero qi))"

text \<open>
  Modelled from the spec: the heuristic base class \<^verbatim>\<open>QUBOHeuristic\<close>, which receives
  the time budget, the validation flag and the callback pointer (an address, or null)
  and offers \<^verbatim>\<open>Report\<close>; and the solution object \<^verbatim>\<open>QUBOSolution\<close>, built from an
  assignment, the instance and the heuristic.
\<close>

record QUBOHeuristic =
  heur_runtime_limit :: real
  heur_validation :: bool
  heur_callback :: "nat option"

record QUBOSolution =
  assignments :: "int list"
  instance_of :: QUBOInstance
  heuristic_of :: QUBOHeuristic

subsection \<open>The process\<close>

text \<open>
  What one process holds across calls: whether the function-local static of
  \<^verbatim>\<open>get_env\<close> has been constructed, the calls made into the interpreter so far, the
  arguments of every call of \<^verbatim>\<open>run_dwave_solver\<close> (a record kept for the proofs; the
  code has no such log), the lines written to \<^verbatim>\<open>std::cerr\<close> and the solutions handed
  to \<^verbatim>\<open>Report\<close>.
\<close>

record world =
  env_constructed :: bool
  pylog :: "pycall list"
  bridge_calls :: "(qubo_term list \<times> string \<times> string) list"
  cerr :: "string list"
  reports :: "QUBOSolution list"

section \<open>The bridge: \<^verbatim>\<open>run_dwave_solver\<close>\<close>

subsection \<open>Steps inside the interpreter\<close>

text \<open>
  A step takes the log of calls made so far and gives a value or an exception, and the
  log extended by the calls it made.
\<close>

type_synonym 'a py_step = "pycall list \<Rightarrow> (exn + 'a) \<times> pycall list"

definition py_done :: "'a \<Rightarrow> 'a py_step" where
  "py_done x tr = (Inr x, tr)"

definition py_bind :: "'a py_step \<Rightarrow> ('a \<Rightarrow> 'b py_step) \<Rightarrow> 'b py_step" where
  "py_bind m f tr = (case m tr of (Inl e, tr') \<Rightarrow> (Inl e, tr') | (Inr x, tr') \<Rightarrow> f x tr')"

definition py_call :: "python \<Rightarrow> pycall \<Rightarrow> pyobj py_step" where
  "py_call py c tr = (py_respond py tr c, tr @ [c])"

definition py_cast_int :: "python \<Rightarrow> pyobj \<Rightarrow> int py_step" where
  "py_cast_int py ob tr = (as_int py tr ob, tr @ [Cast_Int ob])"

definition py_cast_bool :: "python \<Rightarrow> pyobj \<Rightarrow> bool py_step" where
  "py_cast_bool py ob tr = (as_bool py tr ob, tr @ [Cast_Bool ob])"

definition py_cast_double :: "python \<Rightarrow> pyobj \<Rightarrow> real py_step" where
  "py_cast_double py ob tr = (as_double py tr ob, tr @ [Cast_Double ob])"

definition py_cast_int_vector :: "python \<Rightarrow> pyobj \<Rightarrow> int list py_step" where
  "py_cast_int_vector py ob tr = (as_int_vector py tr ob, tr @ [Cast_Int_Vector ob])"

text \<open>\<^verbatim>\<open>try { ... } catch (const std::exception&) { }\<close>: anything else goes on.\<close>

definition ignore_std_exception :: "unit py_step \<Rightarrow> unit py_step" where
  "ignore_std_exception m tr =
     (case m tr of
        (Inl (StdException what), tr') \<Rightarrow> (Inr (), tr')
      | (Inl OtherException, tr') \<Rightarrow> (Inl OtherException, tr')
      | (Inr u, tr') \<Rightarrow> (Inr u, tr'))"

subsection \<open>\<^verbatim>\<open>std::to_string(int)\<close>\<close>

definition digit_char :: "nat \<Rightarrow> char" where
  "digit_char d = char_of (48 + d)"

function digits_of :: "nat \<Rightarrow> string" where
  "digits_of n =
     (if n < 10 then [digit_char n] else digits_of (n div 10) @ [digit_char (n mod 10)])"
  by pat_completeness auto
termination
  by (relation "measure (\<lambda>n. n)") auto

declare digits_of.simps [simp del]

definition to_string :: "int \<Rightarrow> string" where
  "to_string i = (if i < 0 then CHR ''-'' # digits_of (nat (- i)) else digits_of (nat i))"

subsection \<open>Pointers\<close>

text \<open>
  \<^verbatim>\<open>std::string* error_message\<close>: null, or the address of a string, given by the
  string's content. A write through the null pointer is undefined behaviour
  (\<open>None\<close>); any other write replaces the content.
\<close>

datatype 'a ptr = Null | Ptr 'a

definition store_through :: "'a ptr \<Rightarrow> 'a \<Rightarrow> 'a ptr option" where
  "store_through p v = (case p of Null \<Rightarrow> None | Ptr old \<Rightarrow> Some (Ptr v))"

subsection \<open>\<^verbatim>\<open>get_env\<close>\<close>

text \<open>
  \<^verbatim>\<open>static PythonEnvironment env;\<close> constructs the \<^verbatim>\<open>py::scoped_interpreter\<close> on the
  first call that reaches it. An exception of the constructor leaves \<^verbatim>\<open>get_env\<close>, and
  the static stays unconstructed.
\<close>

definition get_env :: "python \<Rightarrow> world \<Rightarrow> (exn + unit) \<times> world" where
  "get_env py w =
     (if env_constructed w then (Inr (), w)
      else
        (case py_respond py (pylog w) Py_Initialize of
           Inl e \<Rightarrow> (Inl e, w\<lparr>pylog := pylog w @ [Py_Initialize]\<rparr>)
         | Inr ob \<Rightarrow>
             (Inr (), w\<lparr>env_constructed := True, pylog := pylog w @ [Py_Initialize]\<rparr>)))"

subsection \<open>The body of the \<^verbatim>\<open>try\<close> block\<close>

definition venv_site :: "int \<Rightarrow> int \<Rightarrow> string" where
  "venv_site major minor =
     ''.venv/lib/python'' @ to_string major @ ''.'' @ to_string minor @ ''/site-packages''"

text \<open>Lines 78 to 93: the search for the project-local \<^verbatim>\<open>.venv\<close>.\<close>

definition probe_venv :: "python \<Rightarrow> pyobj \<Rightarrow> pyobj \<Rightarrow> unit py_step" where
  "probe_venv py sys sys_path =
     py_bind (py_call py (Import ''os'')) (\<lambda>os.
     py_bind (py_call py (Attr sys ''version_info'')) (\<lambda>version_info.
     py_bind (py_call py (Attr version_info ''major'')) (\<lambda>major_obj.
     py_bind (py_cast_int py major_obj) (\<lambda>major.
     py_bind (py_call py (Attr version_info ''minor'')) (\<lambda>minor_obj.
     py_bind (py_cast_int py minor_obj) (\<lambda>minor.
     py_bind (py_call py (Attr os ''path'')) (\<lambda>os_path.
     py_bind (py_call py (Attr os_path ''isdir'')) (\<lambda>isdir.
     py_bind (py_call py (Invoke isdir [PyStr (venv_site major minor)])) (\<lambda>found.
     py_bind (py_cast_bool py found) (\<lambda>is_dir.
       if is_dir
       then py_bind (py_call py (List_Insert sys_path 0 (PyStr (venv_site major minor))))
              (\<lambda>ob. py_done ())
       else py_done ()))))))))))"

text \<open>Lines 101 to 107: the term list as a Python list of 3-tuples.\<close>

definition terms_py :: "qubo_term list \<Rightarrow> pyobj" where
  "terms_py qubo_terms =
     PyList (map (\<lambda>(i, j, w). PyTuple [PyInt i, PyInt j, PyFloat w]) qubo_terms)"

text \<open>Lines 109 to 114.\<close>

definition cfg_path_obj :: "string \<Rightarrow> pyobj" where
  "cfg_path_obj config_json_path =
     (if config_json_path = [] then PyNone else PyStr config_json_path)"

text \<open>Lines 116 to 124: the call of \<^verbatim>\<open>solve_qubo\<close> and the coercion of what it returns.\<close>

definition call_solver ::
  "python \<Rightarrow> pyobj \<Rightarrow> qubo_term list \<Rightarrow> string \<Rightarrow> string \<Rightarrow> (int list \<times> real) py_step"
where
  "call_solver py solve_qubo qubo_terms backend config_json_path =
     py_bind (py_call py (Invoke solve_qubo
                [terms_py qubo_terms, PyStr backend, cfg_path_obj config_json_path])) (\<lambda>res.
     py_bind (py_call py (As_Sequence res)) (\<lambda>seq.
     py_bind (py_call py (Get_Item seq 0)) (\<lambda>sample_obj.
     py_bind (py_call py (Get_Item seq 1)) (\<lambda>weight_obj.
     py_bind (py_cast_int_vector py sample_obj) (\<lambda>sample.
     py_bind (py_cast_double py weight_obj) (\<lambda>weight.
     py_done (sample, weight)))))))"

text \<open>
  Lines 62 to 124. The block gives the sample and the weight it would leave in
  \<^verbatim>\<open>result\<close>; when the cast of the weight throws after the sample has been assigned,
  the handler clears the sample again, so \<^verbatim>\<open>result\<close> is seen only after both casts
  or after a handler.
\<close>

definition try_body ::
  "python \<Rightarrow> qubo_term list \<Rightarrow> string \<Rightarrow> string \<Rightarrow> (int list \<times> real) py_step"
where
  "try_body py qubo_terms backend config_json_path =
     py_bind (py_call py Gil_Acquire) (\<lambda>gil.
     py_bind (py_call py (Import ''sys'')) (\<lambda>sys.
     py_bind (py_call py (Attr sys ''path'')) (\<lambda>path_attr.
     py_bind (py_call py (As_List path_attr)) (\<lambda>sys_path.
     py_bind (py_call py (List_Insert sys_path 0 (PyStr ''python''))) (\<lambda>ob.
     py_bind (ignore_std_exception (probe_venv py sys sys_path)) (\<lambda>u.
     py_bind (py_call py (Import ''mqlib_dwave'')) (\<lambda>m.
     py_bind (py_call py (Attr m ''solve_qubo'')) (\<lambda>solve_qubo.
     call_solver py solve_qubo qubo_terms backend config_json_path))))))))"

subsection \<open>The function\<close>

text \<open>
  Both handlers (lines 125 to 137) store a text through the pointer when it is not null,
  clear the sample and set the weight to \<^verbatim>\<open>0.0\<close>; they differ in the text.
\<close>

definition handler ::
  "string ptr \<Rightarrow> string \<Rightarrow> world \<Rightarrow> DWaveResult outcome \<times> string ptr \<times> world"
where
  "handler error_message text w =
     (case (if error_message \<noteq> Null then store_through error_message text
            else Some error_message) of
        None \<Rightarrow> (Undefined_Behaviour, error_message, w)
      | Some em \<Rightarrow> (Returned \<lparr>best_sample = [], best_weight = 0\<rparr>, em, w))"

definition unknown_exception_text :: string where
  "unknown_exception_text = ''Unknown exception in run_dwave_solver''"

definition not_compiled_text :: string where
  "not_compiled_text = ''D-Wave support not compiled (USE_DWAVE not defined)''"

text \<open>The build with \<^verbatim>\<open>USE_DWAVE\<close> defined (lines 48 to 140).\<close>

definition run_dwave_solver_enabled ::
  "python \<Rightarrow> qubo_term list \<Rightarrow> string \<Rightarrow> string \<Rightarrow> string ptr \<Rightarrow> world
     \<Rightarrow> DWaveResult outcome \<times> string ptr \<times> world"
where
  "run_dwave_solver_enabled py qubo_terms backend config_json_path error_message w0 =
     (case get_env py
             (w0\<lparr>bridge_calls := bridge_calls w0 @ [(qubo_terms, backend, config_json_path)]\<rparr>) of
        (Inl e, w) \<Rightarrow> (Propagated e, error_message, w)
      | (Inr u, w) \<Rightarrow>
          (case (if error_message \<noteq> Null then store_through error_message []
                 else Some error_message) of
             None \<Rightarrow> (Undefined_Behaviour, error_message, w)
           | Some em \<Rightarrow>
               (case try_body py qubo_terms backend config_json_path (pylog w) of
                  (Inr (sample, weight), tr) \<Rightarrow>
                    (Returned \<lparr>best_sample = sample, best_weight = weight\<rparr>, em,
                     w\<lparr>pylog := tr\<rparr>)
                | (Inl (StdException what), tr) \<Rightarrow> handler em what (w\<lparr>pylog := tr\<rparr>)
                | (Inl OtherException, tr) \<Rightarrow>
                    handler em unknown_exception_text (w\<lparr>pylog := tr\<rparr>))))"

text \<open>The build without \<^verbatim>\<open>USE_DWAVE\<close> (lines 144 to 157).\<close>

definition run_dwave_solver_disabled ::
  "qubo_term list \<Rightarrow> string \<Rightarrow> string \<Rightarrow> string ptr \<Rightarrow> world
     \<Rightarrow> DWaveResult outcome \<times> string ptr \<times> world"
where
  "run_dwave_solver_disabled qubo_terms backend config_json_path error_message w0 =
     (case (if error_message \<noteq> Null then store_through error_message not_compiled_text
            else Some error_message) of
        None \<Rightarrow>
          (Undefined_Behaviour, error_message,
           w0\<lparr>bridge_calls := bridge_calls w0 @ [(qubo_terms, backend, config_json_path)]\<rparr>)
      | Some em \<Rightarrow>
          (Returned \<lparr>best_sample = [], best_weight = 0\<rparr>, em,
           w0\<lparr>bridge_calls := bridge_calls w0 @ [(qubo_terms, backend, config_json_path)]\<rparr>))"

text \<open>\<^verbatim>\<open>#ifdef USE_DWAVE\<close> chooses between the two at build time.\<close>

definition run_dwave_solver ::
  "bool \<Rightarrow> python \<Rightarrow> qubo_term list \<Rightarrow> string \<Rightarrow> string \<Rightarrow> string ptr \<Rightarrow> world
     \<Rightarrow> DWaveResult outcome \<times> string ptr \<times> world"
where
  "run_dwave_solver USE_DWAVE py qubo_terms backend config_json_path error_message w =
     (if USE_DWAVE
      then run_dwave_solver_enabled py qubo_terms backend config_json_path error_message w
      else run_dwave_solver_disabled qubo_terms backend config_json_path error_message w)"

section \<open>The adapters\<close>

subsection \<open>\<^verbatim>\<open>DWaveQPU::DWaveQPU\<close>\<close>

text \<open>
  The loop over the diagonal. \<^verbatim>\<open>lin[i]\<close> outside the vector is undefined behaviour
  (\<open>None\<close>). \<^verbatim>\<open>terms.reserve(n + qi.get_edge_count())\<close> before it only sets the
  capacity: the size is a count, so the request is never negative.
\<close>

function DWaveQPU_diagonal ::
  "real list \<Rightarrow> int \<Rightarrow> int \<Rightarrow> qubo_term list \<Rightarrow> qubo_term list option"
where
  "DWaveQPU_diagonal lin i n terms =
     (if i < n then
        (if i < 0 \<or> int (length lin) \<le> i then None
         else (let w = lin ! nat i in
               DWaveQPU_diagonal lin (i + 1) n (if w \<noteq> 0 then terms @ [(i, i, w)] else terms)))
      else Some terms)"
  by pat_completeness auto
termination
  by (relation "measure (\<lambda>(lin, i, n, terms). nat (n - i))") auto

declare DWaveQPU_diagonal.simps [simp del]

text \<open>The loop from \<^verbatim>\<open>get_all_nonzero_begin()\<close> to \<^verbatim>\<open>get_all_nonzero_end()\<close>.\<close>

fun DWaveQPU_offdiagonal ::
  "((int \<times> int) \<times> real) list \<Rightarrow> qubo_term list \<Rightarrow> qubo_term list"
where
  "DWaveQPU_offdiagonal [] terms = terms"
| "DWaveQPU_offdiagonal (it # rest) terms =
     (let i = fst (fst it); j = snd (fst it); w = snd it in
      DWaveQPU_offdiagonal rest (if w \<noteq> 0 then terms @ [(i, j, w)] else terms))"

text \<open>The term list as it stands when \<^verbatim>\<open>run_dwave_solver\<close> is called.\<close>

definition DWaveQPU_terms :: "QUBOInstance \<Rightarrow> qubo_term list option" where
  "DWaveQPU_terms qi =
     (case DWaveQPU_diagonal (get_lin qi) 0 (get_size qi) [] of
        None \<Rightarrow> None
      | Some terms \<Rightarrow> Some (DWaveQPU_offdiagonal (all_nonzero qi) terms))"

text \<open>
  The constructor. \<^verbatim>\<open>error\<close> is a local string, empty before the call, whose address
  the bridge receives.
\<close>

definition DWaveQPU ::
  "bool \<Rightarrow> python \<Rightarrow> QUBOInstance \<Rightarrow> real \<Rightarrow> bool \<Rightarrow> nat option \<Rightarrow> world
     \<Rightarrow> unit outcome \<times> world"
where
  "DWaveQPU USE_DWAVE py qi runtime_limit validation qc w =
     (case DWaveQPU_terms qi of
        None \<Rightarrow> (Undefined_Behaviour, w)
      | Some terms \<Rightarrow>
          (case run_dwave_solver USE_DWAVE py terms ''qpu'' [] (Ptr []) w of
             (Propagated e, em, w1) \<Rightarrow> (Propagated e, w1)
           | (Undefined_Behaviour, em, w1) \<Rightarrow> (Undefined_Behaviour, w1)
           | (Returned res, em, w1) \<Rightarrow>
               (let error = (case em of Ptr text \<Rightarrow> text | Null \<Rightarrow> []) in
                if error \<noteq> [] then
                  (Returned (), w1\<lparr>cerr := cerr w1 @ [''DWaveQPU error: '' @ error]\<rparr>)
                else if best_sample res = [] then
                  (Returned (), w1\<lparr>cerr := cerr w1 @ [''DWaveQPU: no sample returned'']\<rparr>)
                else
                  (Returned (),
                   w1\<lparr>reports := reports w1 @
                      [\<lparr>assignments = best_sample res, instance_of = qi,
                        heuristic_of = \<lparr>heur_runtime_limit = runtime_limit,
                          heur_validation = validation, heur_callback = qc\<rparr>\<rparr>]\<rparr>))))"

subsection \<open>\<^verbatim>\<open>DWaveSA::DWaveSA\<close>\<close>

text \<open>
  The loop over the diagonal. \<^verbatim>\<open>lin[i]\<close> outside the vector is undefined behaviour
  (\<open>None\<close>). \<^verbatim>\<open>terms.reserve(n + qi.get_edge_count())\<close> before it only sets the
  capacity: the size is a count, so the request is never negative.
\<close>

function DWaveSA_diagonal ::
  "real list \<Rightarrow> int \<Rightarrow> int \<Rightarrow> qubo_term list \<Rightarrow> qubo_term list option"
where
  "DWaveSA_diagonal lin i n terms =
     (if i < n then
        (if i < 0 \<or> int (length lin) \<le> i then None
         else (let w = lin ! nat i in
               DWaveSA_diagonal lin (i + 1) n (if w \<noteq> 0 then terms @ [(i, i, w)] else terms)))
      else Some terms)"
  by pat_completeness auto
termination
  by (relation "measure (\<lambda>(lin, i, n, terms). nat (n - i))") auto

declare DWaveSA_diagonal.simps [simp del]

text \<open>The loop from \<^verbatim>\<open>get_all_nonzero_begin()\<close> to \<^verbatim>\<open>get_all_nonzero_end()\<close>.\<close>

fun DWaveSA_offdiagonal ::
  "((int \<times> int) \<times> real) list \<Rightarrow> qubo_term list \<Rightarrow> qubo_term list"
where
  "DWaveSA_offdiagonal [] terms = terms"
| "DWaveSA_offdiagonal (it # rest) terms =
     (let i = fst (fst it); j = snd (fst it); w = snd it in
      DWaveSA_offdiagonal rest (if w \<noteq> 0 then terms @ [(i, j, w)] else terms))"

text \<open>The term list as it stands when \<^verbatim>\<open>run_dwave_solver\<close> is called.\<close>

definition DWaveSA_terms :: "QUBOInstance \<Rightarrow> qubo_term list option" where
  "DWaveSA_terms qi =
     (case DWaveSA_diagonal (get_lin qi) 0 (get_size qi) [] of
        None \<Rightarrow> None
      | Some terms \<Rightarrow> Some (DWaveSA_offdiagonal (all_nonzero qi) terms))"

text \<open>
  The constructor. \<^verbatim>\<open>error\<close> is a local string, empty before the call, whose address
  the bridge receives.
\<close>

definition DWaveSA ::
  "bool \<Rightarrow> python \<Rightarrow> QUBOInstance \<Rightarrow> real \<Rightarrow> bool \<Rightarrow> nat option \<Rightarrow> world
     \<Rightarrow> unit outcome \<times> world"
where
  "DWaveSA USE_DWAVE py qi runtime_limit validation qc w =
     (case DWaveSA_terms qi of
        None \<Rightarrow> (Undefined_Behaviour, w)
      | Some terms \<Rightarrow>
          (case run_dwave_solver USE_DWAVE py terms ''sa'' [] (Ptr []) w of
             (Propagated e, em, w1) \<Rightarrow> (Propagated e, w1)
           | (Undefined_Behaviour, em, w1) \<Rightarrow> (Undefined_Behaviour, w1)
           | (Returned res, em, w1) \<Rightarrow>
               (let error = (case em of Ptr text \<Rightarrow> text | Null \<Rightarrow> []) in
                if error \<noteq> [] then
                  (Returned (), w1\<lparr>cerr := cerr w1 @ [''DWaveSA error: '' @ error]\<rparr>)
                else if best_sample res = [] then
                  (Returned (), w1\<lparr>cerr := cerr w1 @ [''DWaveSA: no sample returned'']\<rparr>)
                else
                  (Returned (),
                   w1\<lparr>reports := reports w1 @
                      [\<lparr>assignments = best_sample res, instance_of = qi,
                        heuristic_of = \<lparr>heur_runtime_limit = runtime_limit,
                          heur_validation = validation, heur_callback = qc\<rparr>\<rparr>]\<rparr>))))"

section \<open>The term list in the spec's words\<close>

text \<open>
  One triple \<open>(i, i, w)\<close> for each index below the size, in increasing order, whose
  linear weight is not zero, then one triple \<open>(i, j, w)\<close> for each entry of the iterator,
  in its order, whose weight is not zero.
\<close>

definition spec_term_list :: "QUBOInstance \<Rightarrow> qubo_term list" where
  "spec_term_list qi =
     map (\<lambda>k. (int k, int k, linear_weights qi ! k))
       (filter (\<lambda>k. linear_weights qi ! k \<noteq> 0) [0..<nvars qi]) @
     map (\<lambda>e. (fst (fst e), snd (fst e), snd e)) (filter (\<lambda>e. snd e \<noteq> 0) (all_nonzero qi))"

section \<open>Test doubles\<close>

text \<open>
  The instance of the spec's scenario: size 3, linear weights \<open>1.0, 0.0, -2.0\<close>, one
  off-diagonal entry \<open>(0,2) = 3.5\<close>.
\<close>

definition example_instance :: QUBOInstance where
  "example_instance =
     \<lparr>nvars = 3, linear_weights = [1, 0, - 2], all_nonzero = [((0, 2), 7 / 2)]\<rparr>"

text \<open>A process that has not yet called the bridge.\<close>

definition fresh_world :: world where
  "fresh_world =
     \<lparr>env_constructed = False, pylog = [], bridge_calls = [], cerr = [], reports = []\<rparr>"

fun ints_of :: "pyobj list \<Rightarrow> int list option" where
  "ints_of [] = Some []"
| "ints_of (PyInt i # rest) = (case ints_of rest of None \<Rightarrow> None | Some is \<Rightarrow> Some (i # is))"
| "ints_of (ob # rest) = None"

text \<open>
  An interpreter for tests: it starts, has the modules \<^verbatim>\<open>sys\<close> and \<^verbatim>\<open>mqlib_dwave\<close> and
  no other (so the import of \<^verbatim>\<open>os\<close> raises), and \<^verbatim>\<open>solve_qubo\<close> ends the way the
  test says.
\<close>

definition stub_respond :: "(exn + pyobj) \<Rightarrow> pycall list \<Rightarrow> pycall \<Rightarrow> exn + pyobj" where
  "stub_respond answer tr c =
     (case c of
        Import name \<Rightarrow>
          (if name = ''sys'' \<or> name = ''mqlib_dwave'' then Inr (PyObject name)
           else Inl (StdException (''No module named '' @ name)))
      | Attr ob name \<Rightarrow> Inr (PyObject name)
      | As_List ob \<Rightarrow> Inr ob
      | Invoke f args \<Rightarrow>
          (if f = PyObject ''solve_qubo'' then answer
           else Inl (StdException ''not callable''))
      | As_Sequence ob \<Rightarrow>
          (case ob of
             PyTuple xs \<Rightarrow> Inr ob
           | PyList xs \<Rightarrow> Inr ob
           | _ \<Rightarrow> Inl (StdException ''not a sequence''))
      | Get_Item ob i \<Rightarrow>
          (case ob of
             PyTuple xs \<Rightarrow>
               (if 0 \<le> i \<and> nat i < length xs then Inr (xs ! nat i)
                else Inl (StdException ''index out of range''))
           | _ \<Rightarrow> Inl (StdException ''not subscriptable''))
      | _ \<Rightarrow> Inr PyNone)"

definition stub_python :: "(exn + pyobj) \<Rightarrow> python" where
  "stub_python answer =
     \<lparr>py_respond = stub_respond answer,
      as_int = (\<lambda>tr ob. case ob of PyInt i \<Rightarrow> Inr i | _ \<Rightarrow> Inl (StdException ''not an int'')),
      as_bool = (\<lambda>tr ob. case ob of PyBool b \<Rightarrow> Inr b | _ \<Rightarrow> Inl (StdException ''not a bool'')),
      as_double = (\<lambda>tr ob. case ob of PyFloat x \<Rightarrow> Inr x
                                   | _ \<Rightarrow> Inl (StdException ''not a float'')),
      as_int_vector = (\<lambda>tr ob. case ob of
                          PyList xs \<Rightarrow>
                            (case ints_of xs of
                               Some is \<Rightarrow> Inr is
                             | None \<Rightarrow> Inl (StdException ''not a list of int''))
                        | _ \<Rightarrow> Inl (StdException ''not a list of int''))\<rparr>"

text \<open>An interpreter that cannot be started: the constructor of the static in
  \<^verbatim>\<open>get_env\<close> throws. Everything else is as in the test interpreter.\<close>

definition no_start_python :: python where
  "no_start_python =
     (stub_python (Inl (StdException ''unused'')))
       \<lparr>py_respond :=
          (\<lambda>tr c. if c = Py_Initialize then Inl (StdException ''Failed to init CPython'')
                  else stub_respond (Inl (StdException ''unused'')) tr c)\<rparr>"

text \<open>The calls the bridge makes before \<^verbatim>\<open>solve_qubo\<close>, against the test interpreter.\<close>

definition stub_prefix :: "pycall list" where
  "stub_prefix =
     [Gil_Acquire, Import ''sys'', Attr (PyObject ''sys'') ''path'',
      As_List (PyObject ''path''), List_Insert (PyObject ''path'') 0 (PyStr ''python''),
      Import ''os'', Import ''mqlib_dwave'', Attr (PyObject ''mqlib_dwave'') ''solve_qubo'']"

section \<open>Reading the log\<close>

text \<open>
  The config arguments the solver has been called with, read off the log of
  interpreter calls: the third argument of every call with three arguments
  (\<^verbatim>\<open>solve_qubo(terms_py, backend, cfg_path_obj)\<close> is the only such call the bridge makes).
\<close>

fun solver_config_args :: "pycall list \<Rightarrow> pyobj list" where
  "solver_config_args [] = []"
| "solver_config_args (Invoke f [terms, backend, cfg] # rest) = cfg # solver_config_args rest"
| "solver_config_args (c # rest) = solver_config_args rest"

text \<open>
  The config arguments with which the solver is invoked during one call of
  \<^verbatim>\<open>run_dwave_solver\<close>: those in the log after the call that were not there before.
\<close>

definition config_args_sent ::
  "bool \<Rightarrow> python \<Rightarrow> qubo_term list \<Rightarrow> string \<Rightarrow> string \<Rightarrow> string ptr \<Rightarrow> world
     \<Rightarrow> pyobj list"
where
  "config_args_sent USE_DWAVE py qubo_terms backend config_json_path error_message w =
     drop (length (solver_config_args (pylog w)))
       (solver_config_args (pylog (snd (snd (run_dwave_solver USE_DWAVE py qubo_terms backend
          config_json_path error_message w)))))"

section \<open>Properties of the bridge\<close>

subsection \<open>Stores and handlers\<close>

lemma store_through_Null [simp]: "store_through Null v = None"
  by (simp add: store_through_def)

lemma store_through_Ptr [simp]: "store_through (Ptr old) v = Some (Ptr v)"
  by (simp add: store_through_def)

lemma handler_Null [simp]:
  "handler Null text w = (Returned \<lparr>best_sample = [], best_weight = 0\<rparr>, Null, w)"
  by (simp add: handler_def)

lemma handler_Ptr [simp]:
  "handler (Ptr old) text w = (Returned \<lparr>best_sample = [], best_weight = 0\<rparr>, Ptr text, w)"
  by (simp add: handler_def)

lemma get_env_bridge_calls:
  "get_env py (w\<lparr>bridge_calls := bc\<rparr>) =
     (fst (get_env py w), (snd (get_env py w))\<lparr>bridge_calls := bc\<rparr>)"
  by (simp add: get_env_def split: sum.splits)

lemma get_env_frame:
  "get_env py w = (r, w1) \<Longrightarrow>
     bridge_calls w1 = bridge_calls w \<and> cerr w1 = cerr w \<and> reports w1 = reports w"
  by (auto simp: get_env_def split: if_splits sum.splits)

subsection \<open>The path of the project-local packages\<close>

lemma to_string_examples:
  "to_string 3 = ''3''" "to_string 12 = ''12''" "to_string (- 40) = ''-40''" "to_string 0 = ''0''"
  by code_simp+

lemma venv_site_example: "venv_site 3 12 = ''.venv/lib/python3.12/site-packages''"
  by code_simp

subsection \<open>The two builds, by cases\<close>

lemma run_dwave_solver_disabled_eq:
  "run_dwave_solver_disabled t b c em w =
     (Returned \<lparr>best_sample = [], best_weight = 0\<rparr>,
      (case em of Null \<Rightarrow> Null | Ptr old \<Rightarrow> Ptr not_compiled_text),
      w\<lparr>bridge_calls := bridge_calls w @ [(t, b, c)]\<rparr>)"
  by (cases em) (simp_all add: run_dwave_solver_disabled_def)

lemma run_dwave_solver_enabled_eq:
  "run_dwave_solver_enabled py t b c em w =
     (case get_env py w of
        (Inl e, w1) \<Rightarrow> (Propagated e, em, w1\<lparr>bridge_calls := bridge_calls w @ [(t, b, c)]\<rparr>)
      | (Inr u, w1) \<Rightarrow>
          (case try_body py t b c (pylog w1) of
             (Inr (sample, weight), tr) \<Rightarrow>
               (Returned \<lparr>best_sample = sample, best_weight = weight\<rparr>,
                (case em of Null \<Rightarrow> Null | Ptr old \<Rightarrow> Ptr []),
                w1\<lparr>pylog := tr, bridge_calls := bridge_calls w @ [(t, b, c)]\<rparr>)
           | (Inl (StdException what), tr) \<Rightarrow>
               (Returned \<lparr>best_sample = [], best_weight = 0\<rparr>,
                (case em of Null \<Rightarrow> Null | Ptr old \<Rightarrow> Ptr what),
                w1\<lparr>pylog := tr, bridge_calls := bridge_calls w @ [(t, b, c)]\<rparr>)
           | (Inl OtherException, tr) \<Rightarrow>
               (Returned \<lparr>best_sample = [], best_weight = 0\<rparr>,
                (case em of Null \<Rightarrow> Null | Ptr old \<Rightarrow> Ptr unknown_exception_text),
                w1\<lparr>pylog := tr, bridge_calls := bridge_calls w @ [(t, b, c)]\<rparr>)))"
  by (cases em)
     (auto simp: run_dwave_solver_enabled_def get_env_bridge_calls
           split: prod.splits sum.splits exn.splits)

lemma run_dwave_solver_build:
  "run_dwave_solver False py t b c em w = run_dwave_solver_disabled t b c em w"
  "run_dwave_solver True py t b c em w = run_dwave_solver_enabled py t b c em w"
  by (simp_all add: run_dwave_solver_def)

subsection \<open>The build without the capability\<close>

text \<open>
  C2. Without \<^verbatim>\<open>USE_DWAVE\<close>, every call of \<^verbatim>\<open>run_dwave_solver\<close>, whatever the term
  list, the backend and the config path, returns an empty \<^verbatim>\<open>best_sample\<close> (and weight
  zero), leaves the text "D-Wave support not compiled (USE_DWAVE not defined)" in the
  error message when there is one to write to, and makes no call into the interpreter:
  the log of interpreter calls and the state of the interpreter are as before.
\<close>

theorem disabled_build_returns_not_compiled:
  "run_dwave_solver False py qubo_terms backend config_json_path error_message w =
     (Returned \<lparr>best_sample = [], best_weight = 0\<rparr>,
      (case error_message of Null \<Rightarrow> Null | Ptr old \<Rightarrow> Ptr not_compiled_text),
      w\<lparr>bridge_calls := bridge_calls w @ [(qubo_terms, backend, config_json_path)]\<rparr>)
   \<and> pylog (snd (snd (run_dwave_solver False py qubo_terms backend config_json_path
                          error_message w))) = pylog w
   \<and> env_constructed (snd (snd (run_dwave_solver False py qubo_terms backend
                          config_json_path error_message w))) = env_constructed w
   \<and> not_compiled_text = ''D-Wave support not compiled (USE_DWAVE not defined)''"
  by (simp add: run_dwave_solver_build run_dwave_solver_disabled_eq not_compiled_text_def)

subsection \<open>The null error-message pointer\<close>

text \<open>
  C9. With a null \<^verbatim>\<open>error_message\<close>, \<^verbatim>\<open>run_dwave_solver\<close> never writes through the
  pointer, in either build and whatever the interpreter does (success, an exception
  derived from \<^verbatim>\<open>std::exception\<close>, any other exception): the call does not end in
  undefined behaviour, it ends exactly as the same call with a non-null pointer does
  (same \<^verbatim>\<open>DWaveResult\<close> or same propagated exception), the process is left in the same
  state, and the pointer is still null.
\<close>

theorem null_error_message_tolerated:
  "fst (run_dwave_solver USE_DWAVE py qubo_terms backend config_json_path Null w)
     \<noteq> Undefined_Behaviour
   \<and> fst (run_dwave_solver USE_DWAVE py qubo_terms backend config_json_path Null w) =
       fst (run_dwave_solver USE_DWAVE py qubo_terms backend config_json_path (Ptr s) w)
   \<and> snd (snd (run_dwave_solver USE_DWAVE py qubo_terms backend config_json_path Null w)) =
       snd (snd (run_dwave_solver USE_DWAVE py qubo_terms backend config_json_path (Ptr s) w))
   \<and> fst (snd (run_dwave_solver USE_DWAVE py qubo_terms backend config_json_path Null w)) =
       Null"
  by (cases USE_DWAVE)
     (auto simp: run_dwave_solver_build run_dwave_solver_disabled_eq
                 run_dwave_solver_enabled_eq
           split: prod.splits sum.splits exn.splits)

section \<open>Properties of the term list\<close>

lemma DWaveQPU_diagonal_step:
  "i < n \<Longrightarrow> \<not> (i < 0 \<or> int (length l) \<le> i) \<Longrightarrow>
   DWaveQPU_diagonal l i n terms =
     DWaveQPU_diagonal l (i + 1) n
       (if l ! nat i \<noteq> 0 then terms @ [(i, i, l ! nat i)] else terms)"
  by (subst DWaveQPU_diagonal.simps) (simp add: Let_def)

lemma DWaveQPU_diagonal_stop: "\<not> i < n \<Longrightarrow> DWaveQPU_diagonal l i n terms = Some terms"
  by (subst DWaveQPU_diagonal.simps) simp

lemma upt_nat_step: "0 \<le> i \<Longrightarrow> i < n \<Longrightarrow> [nat i..<nat n] = nat i # [nat (i + 1)..<nat n]"
  by (simp add: upt_conv_Cons nat_add_distrib)

text \<open>The invariant of the diagonal loop: what has been appended when it ends.\<close>

lemma DWaveQPU_diagonal_result:
  "0 \<le> i \<Longrightarrow> i \<le> n \<Longrightarrow> nat n \<le> length l \<Longrightarrow>
   DWaveQPU_diagonal l i n terms =
     Some (terms @ map (\<lambda>k. (int k, int k, l ! k)) (filter (\<lambda>k. l ! k \<noteq> 0) [nat i..<nat n]))"
proof (induction l i n terms rule: DWaveQPU_diagonal.induct)
  case (1 l i n terms)
  show ?case
  proof (cases "i < n")
    case False
    with "1.prems" have "i = n" by simp
    then show ?thesis by (simp add: DWaveQPU_diagonal_stop)
  next
    case True
    with "1.prems" have rng: "\<not> (i < 0 \<or> int (length l) \<le> i)"
      by linarith
    let ?ts = "if l ! nat i \<noteq> 0 then terms @ [(i, i, l ! nat i)] else terms"
    have "DWaveQPU_diagonal l (i + 1) n ?ts =
        Some (?ts @ map (\<lambda>k. (int k, int k, l ! k))
                      (filter (\<lambda>k. l ! k \<noteq> 0) [nat (i + 1)..<nat n]))"
      using True "1.prems" by (intro "1.IH"[OF True rng refl]) simp_all
    moreover have "DWaveQPU_diagonal l i n terms = DWaveQPU_diagonal l (i + 1) n ?ts"
      using True rng by (rule DWaveQPU_diagonal_step)
    ultimately show ?thesis
      using "1.prems"(1) by (simp add: upt_nat_step[OF "1.prems"(1) True])
  qed
qed

lemma DWaveQPU_offdiagonal_result:
  "DWaveQPU_offdiagonal es terms =
     terms @ map (\<lambda>e. (fst (fst e), snd (fst e), snd e)) (filter (\<lambda>e. snd e \<noteq> 0) es)"
  by (induction es arbitrary: terms) (simp_all add: Let_def)

text \<open>The loops of the two constructors compute the same lists.\<close>

lemma DWaveSA_diagonal_eq: "DWaveSA_diagonal l i n terms = DWaveQPU_diagonal l i n terms"
proof (induction l i n terms rule: DWaveQPU_diagonal.induct)
  case (1 l i n terms)
  show ?case
    by (subst DWaveSA_diagonal.simps, subst DWaveQPU_diagonal.simps) (simp add: 1 Let_def)
qed

lemma DWaveSA_offdiagonal_eq: "DWaveSA_offdiagonal es terms = DWaveQPU_offdiagonal es terms"
  by (induction es arbitrary: terms) (simp_all add: Let_def)

lemma DWaveSA_terms_eq: "DWaveSA_terms qi = DWaveQPU_terms qi"
  by (simp add: DWaveSA_terms_def DWaveQPU_terms_def DWaveSA_diagonal_eq
        DWaveSA_offdiagonal_eq split: option.splits)

lemma DWaveQPU_terms_spec:
  "nvars qi \<le> length (linear_weights qi) \<Longrightarrow> DWaveQPU_terms qi = Some (spec_term_list qi)"
  by (simp add: DWaveQPU_terms_def get_lin_def get_size_def DWaveQPU_diagonal_result
        DWaveQPU_offdiagonal_result spec_term_list_def)

lemma spec_term_list_nonzero: "t \<in> set (spec_term_list qi) \<Longrightarrow> snd (snd t) \<noteq> 0"
  by (auto simp: spec_term_list_def)

lemma spec_term_list_length:
  "int (length (spec_term_list qi)) \<le> get_size qi + get_edge_count qi"
proof -
  have "length (filter (\<lambda>k. linear_weights qi ! k \<noteq> 0) [0..<nvars qi]) \<le> nvars qi"
    using length_filter_le[of "\<lambda>k. linear_weights qi ! k \<noteq> 0" "[0..<nvars qi]"] by simp
  moreover have "length (filter (\<lambda>e. snd e \<noteq> 0) (all_nonzero qi)) \<le> length (all_nonzero qi)"
    by (rule length_filter_le)
  ultimately show ?thesis
    unfolding spec_term_list_def get_size_def get_edge_count_def by (simp del: length_filter_le)
qed

lemma example_spec_term_list:
  "spec_term_list example_instance = [(0, 0, 1), (2, 2, - 2), (0, 2, 7 / 2)]"
  by (simp add: spec_term_list_def example_instance_def upt_conv_Cons)

text \<open>
  C4. For every instance whose vector of linear weights has an entry for each index
  below the size, the term list either adapter has built when it calls the bridge is:
  one triple \<open>(i, i, w)\<close> for each index \<open>i\<close>, in increasing order, whose linear weight
  \<open>w\<close> is not zero, then one triple \<open>(i, j, w)\<close> for each entry of the nonzero iterator,
  in its order, whose weight is not zero. Every term of the list has a nonzero weight, and
  the list is no longer than the size plus the number of off-diagonal entries. For the
  instance of size 3 with linear weights \<open>1.0, 0.0, -2.0\<close> and the entry \<open>(0,2) = 3.5\<close>
  the list is \<open>[(0,0,1.0), (2,2,-2.0), (0,2,3.5)]\<close>.
\<close>

theorem adapter_term_list:
  assumes "nvars qi \<le> length (linear_weights qi)"
  shows "DWaveQPU_terms qi = Some (spec_term_list qi)
       \<and> DWaveSA_terms qi = Some (spec_term_list qi)
       \<and> (\<forall>t \<in> set (spec_term_list qi). snd (snd t) \<noteq> 0)
       \<and> int (length (spec_term_list qi)) \<le> get_size qi + get_edge_count qi
       \<and> DWaveQPU_terms example_instance = Some [(0, 0, 1), (2, 2, - 2), (0, 2, 7 / 2)]
       \<and> DWaveSA_terms example_instance = Some [(0, 0, 1), (2, 2, - 2), (0, 2, 7 / 2)]"
proof -
  have ex: "nvars example_instance \<le> length (linear_weights example_instance)"
    by (simp add: example_instance_def)
  have "DWaveQPU_terms example_instance = Some [(0, 0, 1), (2, 2, - 2), (0, 2, 7 / 2)]"
    using DWaveQPU_terms_spec[OF ex] by (simp add: example_spec_term_list)
  then show ?thesis
    using assms
    by (simp add: DWaveSA_terms_eq DWaveQPU_terms_spec spec_term_list_nonzero
          spec_term_list_length)
qed

theorem adapter_term_list_witness:
  "nvars example_instance \<le> length (linear_weights example_instance)
   \<and> DWaveQPU_terms example_instance = Some [(0, 0, 1), (2, 2, - 2), (0, 2, 7 / 2)]
   \<and> DWaveSA_terms example_instance = Some [(0, 0, 1), (2, 2, - 2), (0, 2, 7 / 2)]
   \<and> length (spec_term_list example_instance) = 3"
proof -
  have ex: "nvars example_instance \<le> length (linear_weights example_instance)"
    by (simp add: example_instance_def)
  show ?thesis
    using ex adapter_term_list[OF ex] by (simp add: example_spec_term_list)
qed

section \<open>Properties of the adapters\<close>

subsection \<open>What the bridge leaves untouched\<close>

lemma run_dwave_solver_frame:
  assumes "run_dwave_solver u py t b c em w = (out, em', w')"
  shows "cerr w' = cerr w \<and> reports w' = reports w
       \<and> bridge_calls w' = bridge_calls w @ [(t, b, c)]"
proof (cases u)
  case False
  with assms show ?thesis
    by (auto simp: run_dwave_solver_build run_dwave_solver_disabled_eq)
next
  case True
  obtain r w1 where g: "get_env py w = (r, w1)"
    by (cases "get_env py w")
  from get_env_frame[OF g] True assms g show ?thesis
    by (auto simp: run_dwave_solver_build run_dwave_solver_enabled_eq
             split: prod.splits sum.splits exn.splits)
qed

lemma run_dwave_solver_Ptr:
  assumes "run_dwave_solver u py t b c (Ptr s) w = (out, em', w')"
  shows "out \<noteq> Undefined_Behaviour \<and> (\<exists>text. em' = Ptr text)"
  using assms
  by (cases u)
     (auto simp: run_dwave_solver_build run_dwave_solver_disabled_eq
                 run_dwave_solver_enabled_eq
           split: prod.splits sum.splits exn.splits)

text \<open>A sample comes back non-empty only with an empty error message.\<close>

lemma run_dwave_solver_sample_no_error:
  assumes "run_dwave_solver u py t b c (Ptr []) w = (Returned res, Ptr error, w')"
    and "best_sample res \<noteq> []"
  shows "error = []"
  using assms
  by (cases u)
     (auto simp: run_dwave_solver_build run_dwave_solver_disabled_eq
                 run_dwave_solver_enabled_eq
           split: prod.splits sum.splits exn.splits)

subsection \<open>The constructors, by the way the bridge ends\<close>

lemma DWaveQPU_no_terms:
  "DWaveQPU_terms qi = None \<Longrightarrow> DWaveQPU u py qi rl v qc w = (Undefined_Behaviour, w)"
  by (simp add: DWaveQPU_def)

lemma DWaveQPU_propagated:
  "DWaveQPU_terms qi = Some terms \<Longrightarrow>
   run_dwave_solver u py terms ''qpu'' [] (Ptr []) w = (Propagated e, em, w1) \<Longrightarrow>
   DWaveQPU u py qi rl v qc w = (Propagated e, w1)"
  by (simp add: DWaveQPU_def)

lemma DWaveQPU_returned:
  "DWaveQPU_terms qi = Some terms \<Longrightarrow>
   run_dwave_solver u py terms ''qpu'' [] (Ptr []) w = (Returned res, Ptr error, w1) \<Longrightarrow>
   DWaveQPU u py qi rl v qc w =
     (Returned (),
      if error \<noteq> [] then w1\<lparr>cerr := cerr w1 @ [''DWaveQPU error: '' @ error]\<rparr>
      else if best_sample res = [] then w1\<lparr>cerr := cerr w1 @ [''DWaveQPU: no sample returned'']\<rparr>
      else w1\<lparr>reports := reports w1 @
              [\<lparr>assignments = best_sample res, instance_of = qi,
                heuristic_of = \<lparr>heur_runtime_limit = rl, heur_validation = v,
                  heur_callback = qc\<rparr>\<rparr>]\<rparr>)"
  by (simp add: DWaveQPU_def)

lemma DWaveSA_no_terms:
  "DWaveSA_terms qi = None \<Longrightarrow> DWaveSA u py qi rl v qc w = (Undefined_Behaviour, w)"
  by (simp add: DWaveSA_def)

lemma DWaveSA_propagated:
  "DWaveSA_terms qi = Some terms \<Longrightarrow>
   run_dwave_solver u py terms ''sa'' [] (Ptr []) w = (Propagated e, em, w1) \<Longrightarrow>
   DWaveSA u py qi rl v qc w = (Propagated e, w1)"
  by (simp add: DWaveSA_def)

lemma DWaveSA_returned:
  "DWaveSA_terms qi = Some terms \<Longrightarrow>
   run_dwave_solver u py terms ''sa'' [] (Ptr []) w = (Returned res, Ptr error, w1) \<Longrightarrow>
   DWaveSA u py qi rl v qc w =
     (Returned (),
      if error \<noteq> [] then w1\<lparr>cerr := cerr w1 @ [''DWaveSA error: '' @ error]\<rparr>
      else if best_sample res = [] then w1\<lparr>cerr := cerr w1 @ [''DWaveSA: no sample returned'']\<rparr>
      else w1\<lparr>reports := reports w1 @
              [\<lparr>assignments = best_sample res, instance_of = qi,
                heuristic_of = \<lparr>heur_runtime_limit = rl, heur_validation = v,
                  heur_callback = qc\<rparr>\<rparr>]\<rparr>)"
  by (simp add: DWaveSA_def)

text \<open>Every run of a constructor falls under one of three cases.\<close>

lemma DWaveQPU_cases:
  obtains (no_terms) "DWaveQPU_terms qi = None"
  | (propagated) terms e em w1 where "DWaveQPU_terms qi = Some terms"
      and "run_dwave_solver u py terms ''qpu'' [] (Ptr []) w = (Propagated e, em, w1)"
  | (returned) terms res error w1 where "DWaveQPU_terms qi = Some terms"
      and "run_dwave_solver u py terms ''qpu'' [] (Ptr []) w = (Returned res, Ptr error, w1)"
proof (cases "DWaveQPU_terms qi")
  case None
  then show ?thesis by (rule no_terms)
next
  case (Some terms)
  obtain out em w1 where r: "run_dwave_solver u py terms ''qpu'' [] (Ptr []) w = (out, em, w1)"
    by (cases "run_dwave_solver u py terms ''qpu'' [] (Ptr []) w")
  from run_dwave_solver_Ptr[OF r] obtain msg where
    ub: "out \<noteq> Undefined_Behaviour" and em: "em = Ptr msg"
    by blast
  show ?thesis
  proof (cases out)
    case (Returned res)
    with Some r em show ?thesis by (intro returned[of terms res msg w1]) simp_all
  next
    case (Propagated e)
    with Some r show ?thesis by (intro propagated[of terms e em w1]) simp_all
  next
    case Undefined_Behaviour
    with ub show ?thesis by simp
  qed
qed

lemma DWaveSA_cases:
  obtains (no_terms) "DWaveSA_terms qi = None"
  | (propagated) terms e em w1 where "DWaveSA_terms qi = Some terms"
      and "run_dwave_solver u py terms ''sa'' [] (Ptr []) w = (Propagated e, em, w1)"
  | (returned) terms res error w1 where "DWaveSA_terms qi = Some terms"
      and "run_dwave_solver u py terms ''sa'' [] (Ptr []) w = (Returned res, Ptr error, w1)"
proof (cases "DWaveSA_terms qi")
  case None
  then show ?thesis by (rule no_terms)
next
  case (Some terms)
  obtain out em w1 where r: "run_dwave_solver u py terms ''sa'' [] (Ptr []) w = (out, em, w1)"
    by (cases "run_dwave_solver u py terms ''sa'' [] (Ptr []) w")
  from run_dwave_solver_Ptr[OF r] obtain msg where
    ub: "out \<noteq> Undefined_Behaviour" and em: "em = Ptr msg"
    by blast
  show ?thesis
  proof (cases out)
    case (Returned res)
    with Some r em show ?thesis by (intro returned[of terms res msg w1]) simp_all
  next
    case (Propagated e)
    with Some r show ?thesis by (intro propagated[of terms e em w1]) simp_all
  next
    case Undefined_Behaviour
    with ub show ?thesis by simp
  qed
qed

subsection \<open>What each constructor sends to the bridge\<close>

lemma DWaveQPU_bridge_calls:
  "bridge_calls (snd (DWaveQPU u py qi rl v qc w)) =
     (case DWaveQPU_terms qi of
        None \<Rightarrow> bridge_calls w
      | Some terms \<Rightarrow> bridge_calls w @ [(terms, ''qpu'', [])])"
proof (cases rule: DWaveQPU_cases[where qi=qi and u=u and py=py and w=w])
  case no_terms
  then show ?thesis by (simp add: DWaveQPU_no_terms)
next
  case (propagated terms e em w1)
  from run_dwave_solver_frame[OF propagated(2)] propagated(1) show ?thesis
    by (simp add: DWaveQPU_propagated[OF propagated])
next
  case (returned terms res error w1)
  from run_dwave_solver_frame[OF returned(2)] returned(1) show ?thesis
    by (simp add: DWaveQPU_returned[OF returned])
qed

lemma DWaveSA_bridge_calls:
  "bridge_calls (snd (DWaveSA u py qi rl v qc w)) =
     (case DWaveSA_terms qi of
        None \<Rightarrow> bridge_calls w
      | Some terms \<Rightarrow> bridge_calls w @ [(terms, ''sa'', [])])"
proof (cases rule: DWaveSA_cases[where qi=qi and u=u and py=py and w=w])
  case no_terms
  then show ?thesis by (simp add: DWaveSA_no_terms)
next
  case (propagated terms e em w1)
  from run_dwave_solver_frame[OF propagated(2)] propagated(1) show ?thesis
    by (simp add: DWaveSA_propagated[OF propagated])
next
  case (returned terms res error w1)
  from run_dwave_solver_frame[OF returned(2)] returned(1) show ?thesis
    by (simp add: DWaveSA_returned[OF returned])
qed

section \<open>The bridge against the test interpreter\<close>

lemmas step_defs = py_bind_def py_call_def py_done_def py_cast_int_def py_cast_bool_def
  py_cast_double_def py_cast_int_vector_def ignore_std_exception_def

lemma stub_python_fields:
  "py_respond (stub_python answer) = stub_respond answer"
  "as_double (stub_python answer) tr (PyFloat x) = Inr x"
  "as_int_vector (stub_python answer) tr (PyList xs) =
     (case ints_of xs of
        Some is \<Rightarrow> Inr is
      | None \<Rightarrow> Inl (StdException ''not a list of int''))"
  by (simp_all add: stub_python_def)

lemma fresh_world_fields:
  "env_constructed fresh_world = False" "pylog fresh_world = []"
  "bridge_calls fresh_world = []" "cerr fresh_world = []" "reports fresh_world = []"
  by (simp_all add: fresh_world_def)

lemma stub_get_env:
  "get_env (stub_python answer) fresh_world =
     (Inr (), fresh_world\<lparr>env_constructed := True, pylog := [Py_Initialize]\<rparr>)"
  by (simp add: get_env_def stub_python_fields stub_respond_def fresh_world_def)

lemma stub_probe_venv:
  "probe_venv (stub_python answer) sys sys_path tr =
     (Inl (StdException ''No module named os''), tr @ [Import ''os''])"
  by (simp add: probe_venv_def step_defs stub_python_fields stub_respond_def)

lemma stub_try_body:
  "try_body (stub_python answer) t b c tr =
     call_solver (stub_python answer) (PyObject ''solve_qubo'') t b c (tr @ stub_prefix)"
  by (simp add: try_body_def stub_probe_venv step_defs stub_python_fields stub_respond_def
        stub_prefix_def)

lemma stub_call_solver_raises:
  "call_solver (stub_python (Inl e)) (PyObject ''solve_qubo'') t b c tr =
     (Inl e, tr @ [Invoke (PyObject ''solve_qubo'') [terms_py t, PyStr b, cfg_path_obj c]])"
  by (simp add: call_solver_def step_defs stub_python_fields stub_respond_def)

lemma stub_call_solver_answers:
  "ints_of xs = Some sample \<Longrightarrow>
   call_solver (stub_python (Inr (PyTuple [PyList xs, PyFloat weight])))
       (PyObject ''solve_qubo'') t b c tr =
     (Inr (sample, weight),
      tr @ [Invoke (PyObject ''solve_qubo'') [terms_py t, PyStr b, cfg_path_obj c],
            As_Sequence (PyTuple [PyList xs, PyFloat weight]),
            Get_Item (PyTuple [PyList xs, PyFloat weight]) 0,
            Get_Item (PyTuple [PyList xs, PyFloat weight]) 1,
            Cast_Int_Vector (PyList xs), Cast_Double (PyFloat weight)])"
  by (simp add: call_solver_def step_defs stub_python_fields stub_respond_def)

lemma stub_run_raises:
  "run_dwave_solver True (stub_python (Inl (StdException what))) t b c (Ptr old) fresh_world =
     (Returned \<lparr>best_sample = [], best_weight = 0\<rparr>, Ptr what,
      fresh_world\<lparr>env_constructed := True,
        pylog := Py_Initialize # stub_prefix @
          [Invoke (PyObject ''solve_qubo'') [terms_py t, PyStr b, cfg_path_obj c]],
        bridge_calls := [(t, b, c)]\<rparr>)"
  unfolding run_dwave_solver_build run_dwave_solver_enabled_eq stub_get_env
  by (simp add: stub_try_body stub_call_solver_raises fresh_world_def)

lemma stub_run_answers:
  "ints_of xs = Some sample \<Longrightarrow>
   run_dwave_solver True (stub_python (Inr (PyTuple [PyList xs, PyFloat weight]))) t b c
       (Ptr old) fresh_world =
     (Returned \<lparr>best_sample = sample, best_weight = weight\<rparr>, Ptr [],
      fresh_world\<lparr>env_constructed := True,
        pylog := Py_Initialize # stub_prefix @
          [Invoke (PyObject ''solve_qubo'') [terms_py t, PyStr b, cfg_path_obj c],
           As_Sequence (PyTuple [PyList xs, PyFloat weight]),
           Get_Item (PyTuple [PyList xs, PyFloat weight]) 0,
           Get_Item (PyTuple [PyList xs, PyFloat weight]) 1,
           Cast_Int_Vector (PyList xs), Cast_Double (PyFloat weight)],
        bridge_calls := [(t, b, c)]\<rparr>)"
  unfolding run_dwave_solver_build run_dwave_solver_enabled_eq stub_get_env
  by (simp add: stub_try_body stub_call_solver_answers fresh_world_def)

section \<open>Exceptions of the interpreter\<close>





section \<open>The config argument\<close>

lemma solver_config_args_append:
  "solver_config_args (xs @ ys) = solver_config_args xs @ solver_config_args ys"
  by (induction xs rule: solver_config_args.induct) simp_all

lemma probe_venv_config_args:
  "probe_venv py sys sys_path tr = (r, tr') \<Longrightarrow>
   solver_config_args tr' = solver_config_args tr"
  by (auto simp: probe_venv_def step_defs solver_config_args_append
           split: prod.splits sum.splits if_splits)

lemma guarded_probe_venv_config_args:
  "ignore_std_exception (probe_venv py sys sys_path) tr = (r, tr') \<Longrightarrow>
   solver_config_args tr' = solver_config_args tr"
  by (auto simp: ignore_std_exception_def split: prod.splits sum.splits exn.splits
           dest: probe_venv_config_args)

text \<open>Once the solver is called, its config argument is in the log, whatever follows.\<close>

lemma call_solver_config_args:
  "call_solver py f t b c tr = (r, tr') \<Longrightarrow>
   solver_config_args tr' = solver_config_args tr @ [cfg_path_obj c]"
  by (auto simp: call_solver_def step_defs solver_config_args_append
           split: prod.splits sum.splits)

lemma try_body_config_args:
  assumes "try_body py t b c tr = (r, tr')"
  shows "solver_config_args tr' = solver_config_args tr
       \<or> solver_config_args tr' = solver_config_args tr @ [cfg_path_obj c]"
  using assms
  by (auto simp: try_body_def py_bind_def py_call_def solver_config_args_append
           split: prod.splits sum.splits
           dest!: guarded_probe_venv_config_args call_solver_config_args)

text \<open>A \<^verbatim>\<open>try\<close> block that ends without an exception has called the solver once.\<close>

lemma try_body_success_config_args:
  assumes "try_body py t b c tr = (Inr x, tr')"
  shows "solver_config_args tr' = solver_config_args tr @ [cfg_path_obj c]"
  using assms
  by (auto simp: try_body_def py_bind_def py_call_def solver_config_args_append
           split: prod.splits sum.splits
           dest!: guarded_probe_venv_config_args call_solver_config_args)

lemma get_env_config_args:
  "get_env py w = (r, w1) \<Longrightarrow> solver_config_args (pylog w1) = solver_config_args (pylog w)"
  by (auto simp: get_env_def solver_config_args_append split: if_splits sum.splits)

lemma run_dwave_solver_config_args:
  "solver_config_args (pylog (snd (snd (run_dwave_solver u py t b c em w)))) =
     solver_config_args (pylog w)
   \<or> solver_config_args (pylog (snd (snd (run_dwave_solver u py t b c em w)))) =
     solver_config_args (pylog w) @ [cfg_path_obj c]"
proof (cases u)
  case False
  then show ?thesis
    by (simp add: run_dwave_solver_build run_dwave_solver_disabled_eq)
next
  case True
  obtain r w1 where g: "get_env py w = (r, w1)"
    by (cases "get_env py w")
  obtain r' tr where b: "try_body py t b c (pylog w1) = (r', tr)"
    by (cases "try_body py t b c (pylog w1)")
  from get_env_config_args[OF g] try_body_config_args[OF b] True g b show ?thesis
    by (auto simp: run_dwave_solver_build run_dwave_solver_enabled_eq
             split: prod.splits sum.splits exn.splits)
qed

lemma run_dwave_solver_sample_config_args:
  assumes "fst (run_dwave_solver u py t b c em w) = Returned res"
    and "best_sample res \<noteq> []"
  shows "solver_config_args (pylog (snd (snd (run_dwave_solver u py t b c em w)))) =
           solver_config_args (pylog w) @ [cfg_path_obj c]"
proof (cases u)
  case False
  with assms show ?thesis
    by (auto simp: run_dwave_solver_build run_dwave_solver_disabled_eq)
next
  case True
  obtain r w1 where g: "get_env py w = (r, w1)"
    by (cases "get_env py w")
  obtain r' tr where b: "try_body py t b c (pylog w1) = (r', tr)"
    by (cases "try_body py t b c (pylog w1)")
  from assms True g b obtain x where x: "r' = Inr x"
    by (auto simp: run_dwave_solver_build run_dwave_solver_enabled_eq
             split: prod.splits sum.splits exn.splits)
  from try_body_success_config_args[OF b[unfolded x]] get_env_config_args[OF g] True g b x
    assms(1)
  show ?thesis
    by (auto simp: run_dwave_solver_build run_dwave_solver_enabled_eq
             split: prod.splits sum.splits exn.splits)
qed

lemma config_args_sent_cases:
  "config_args_sent u py t b c em w = []
   \<or> config_args_sent u py t b c em w = [cfg_path_obj c]"
  using run_dwave_solver_config_args[of u py t b c em w]
  by (auto simp: config_args_sent_def)

lemma config_args_sent_sample:
  "fst (run_dwave_solver u py t b c em w) = Returned res \<Longrightarrow> best_sample res \<noteq> [] \<Longrightarrow>
   config_args_sent u py t b c em w = [cfg_path_obj c]"
  by (simp add: config_args_sent_def run_dwave_solver_sample_config_args)

lemma stub_config_args_sent:
  "ints_of xs = Some sample \<Longrightarrow>
   config_args_sent True (stub_python (Inr (PyTuple [PyList xs, PyFloat weight]))) t b c
       (Ptr old) fresh_world = [cfg_path_obj c]"
  by (simp add: config_args_sent_def stub_run_answers stub_prefix_def fresh_world_fields)

text \<open>
  C3, as amended. The bridge takes the config path as a string, and the empty string
  is its only way to say "no config". In every call the solver is invoked at most once,
  and exactly once when the call returns a non-empty sample; the config argument it is
  invoked with is Python's \<^verbatim>\<open>None\<close> when the path is empty and the path itself, as a
  Python string, when it is not. So the solver never receives the empty string, and it
  receives \<^verbatim>\<open>None\<close> only when the path was empty. An explicit empty-string path is
  the same input as "no config" and is passed as \<^verbatim>\<open>None\<close> too.
\<close>

theorem config_argument_sent:
  "(config_args_sent USE_DWAVE py qubo_terms backend config_json_path error_message w = []
      \<or> config_args_sent USE_DWAVE py qubo_terms backend config_json_path error_message w =
          [if config_json_path = [] then PyNone else PyStr config_json_path])
   \<and> (\<forall>res.
         fst (run_dwave_solver USE_DWAVE py qubo_terms backend config_json_path
                error_message w) = Returned res \<longrightarrow>
         best_sample res \<noteq> [] \<longrightarrow>
           config_args_sent USE_DWAVE py qubo_terms backend config_json_path error_message w =
             [if config_json_path = [] then PyNone else PyStr config_json_path])
   \<and> PyStr [] \<notin> set (config_args_sent USE_DWAVE py qubo_terms backend config_json_path
                         error_message w)
   \<and> (PyNone \<in> set (config_args_sent USE_DWAVE py qubo_terms backend config_json_path
                        error_message w) \<longrightarrow> config_json_path = [])"
  using config_args_sent_cases[of USE_DWAVE py qubo_terms backend config_json_path
      error_message w]
    config_args_sent_sample[of USE_DWAVE py qubo_terms backend config_json_path
      error_message w]
  by (auto simp: cfg_path_obj_def split: if_splits)

theorem config_argument_sent_witness:
  "fst (run_dwave_solver True
          (stub_python (Inr (PyTuple [PyList [PyInt 1, PyInt 0, PyInt 1], PyFloat (- 1 / 2)])))
          [(0, 0, 1), (2, 2, - 2), (0, 2, 7 / 2)] ''qpu'' ''dwave.json'' (Ptr []) fresh_world) =
     Returned \<lparr>best_sample = [1, 0, 1], best_weight = - 1 / 2\<rparr>
   \<and> config_args_sent True
        (stub_python (Inr (PyTuple [PyList [PyInt 1, PyInt 0, PyInt 1], PyFloat (- 1 / 2)])))
        [(0, 0, 1), (2, 2, - 2), (0, 2, 7 / 2)] ''qpu'' ''dwave.json'' (Ptr []) fresh_world =
       [PyStr ''dwave.json'']
   \<and> fst (run_dwave_solver True
          (stub_python (Inr (PyTuple [PyList [PyInt 1, PyInt 0, PyInt 1], PyFloat (- 1 / 2)])))
          [(0, 0, 1), (2, 2, - 2), (0, 2, 7 / 2)] ''qpu'' [] (Ptr []) fresh_world) =
     Returned \<lparr>best_sample = [1, 0, 1], best_weight = - 1 / 2\<rparr>
   \<and> config_args_sent True
        (stub_python (Inr (PyTuple [PyList [PyInt 1, PyInt 0, PyInt 1], PyFloat (- 1 / 2)])))
        [(0, 0, 1), (2, 2, - 2), (0, 2, 7 / 2)] ''qpu'' [] (Ptr []) fresh_world = [PyNone]
   \<and> PyNone \<in> set (config_args_sent True
        (stub_python (Inr (PyTuple [PyList [PyInt 1, PyInt 0, PyInt 1], PyFloat (- 1 / 2)])))
        [(0, 0, 1), (2, 2, - 2), (0, 2, 7 / 2)] ''qpu'' [] (Ptr []) fresh_world)"
proof -
  let ?py = "stub_python (Inr (PyTuple [PyList [PyInt 1, PyInt 0, PyInt 1], PyFloat (- 1 / 2)]))"
  let ?t = "[(0, 0, 1), (2, 2, - 2), (0, 2, 7 / 2)] :: qubo_term list"
  have i: "ints_of [PyInt 1, PyInt 0, PyInt 1] = Some [1, 0, 1]"
    by simp
  have p: "fst (run_dwave_solver True ?py ?t ''qpu'' ''dwave.json'' (Ptr []) fresh_world) =
      Returned \<lparr>best_sample = [1, 0, 1], best_weight = - 1 / 2\<rparr>"
    and e: "fst (run_dwave_solver True ?py ?t ''qpu'' [] (Ptr []) fresh_world) =
      Returned \<lparr>best_sample = [1, 0, 1], best_weight = - 1 / 2\<rparr>"
    by (simp_all add: stub_run_answers[OF i])
  from config_argument_sent[of True ?py ?t "''qpu''" "''dwave.json''" "Ptr []" fresh_world] p
  have 1: "config_args_sent True ?py ?t ''qpu'' ''dwave.json'' (Ptr []) fresh_world =
      [PyStr ''dwave.json'']"
    by simp
  from config_argument_sent[of True ?py ?t "''qpu''" "[]" "Ptr []" fresh_world] e
  have 2: "config_args_sent True ?py ?t ''qpu'' [] (Ptr []) fresh_world = [PyNone]"
    by simp
  from p e 1 2 show ?thesis
    by simp
qed

text \<open>
  C3 as stated fails: the solver cannot tell "nothing passed" from an explicit
  empty-string path. A call with the explicit path \<^verbatim>\<open>""\<close> reaches the solver and invokes
  it with \<^verbatim>\<open>None\<close>, the argument that stands for "no config", and not with the empty
  string; so it is not true that every explicit path arrives at the solver as itself.
\<close>

theorem explicit_empty_path_is_None_counterexample:
  "config_args_sent True
     (stub_python (Inr (PyTuple [PyList [PyInt 1, PyInt 0, PyInt 1], PyFloat (- 1 / 2)])))
     [(0, 0, 1), (2, 2, - 2), (0, 2, 7 / 2)] ''qpu'' '''' (Ptr []) fresh_world = [PyNone]
   \<and> config_args_sent True
     (stub_python (Inr (PyTuple [PyList [PyInt 1, PyInt 0, PyInt 1], PyFloat (- 1 / 2)])))
     [(0, 0, 1), (2, 2, - 2), (0, 2, 7 / 2)] ''qpu'' '''' (Ptr []) fresh_world \<noteq> [PyStr '''']
   \<and> \<not> (\<forall>path. config_args_sent True
          (stub_python (Inr (PyTuple [PyList [PyInt 1, PyInt 0, PyInt 1], PyFloat (- 1 / 2)])))
          [(0, 0, 1), (2, 2, - 2), (0, 2, 7 / 2)] ''qpu'' path (Ptr []) fresh_world =
        [PyStr path])"
proof -
  have i: "ints_of [PyInt 1, PyInt 0, PyInt 1] = Some [1, 0, 1]"
    by simp
  have e: "config_args_sent True
     (stub_python (Inr (PyTuple [PyList [PyInt 1, PyInt 0, PyInt 1], PyFloat (- 1 / 2)])))
     [(0, 0, 1), (2, 2, - 2), (0, 2, 7 / 2)] ''qpu'' '''' (Ptr []) fresh_world = [PyNone]"
    by (simp add: stub_config_args_sent[OF i] cfg_path_obj_def)
  have "\<not> (\<forall>path. config_args_sent True
          (stub_python (Inr (PyTuple [PyList [PyInt 1, PyInt 0, PyInt 1], PyFloat (- 1 / 2)])))
          [(0, 0, 1), (2, 2, - 2), (0, 2, 7 / 2)] ''qpu'' path (Ptr []) fresh_world =
        [PyStr path])"
  proof
    assume "\<forall>path. config_args_sent True
          (stub_python (Inr (PyTuple [PyList [PyInt 1, PyInt 0, PyInt 1], PyFloat (- 1 / 2)])))
          [(0, 0, 1), (2, 2, - 2), (0, 2, 7 / 2)] ''qpu'' path (Ptr []) fresh_world =
        [PyStr path]"
    then have "config_args_sent True
          (stub_python (Inr (PyTuple [PyList [PyInt 1, PyInt 0, PyInt 1], PyFloat (- 1 / 2)])))
          [(0, 0, 1), (2, 2, - 2), (0, 2, 7 / 2)] ''qpu'' '''' (Ptr []) fresh_world =
        [PyStr '''']"
      by blast
    with e show False
      by simp
  qed
  with e show ?thesis
    by simp
qed

section \<open>Reports and diagnostics\<close>

lemma example_DWaveQPU_terms:
  "DWaveQPU_terms example_instance = Some [(0, 0, 1), (2, 2, - 2), (0, 2, 7 / 2)]"
proof -
  have "nvars example_instance \<le> length (linear_weights example_instance)"
    by (simp add: example_instance_def)
  then show ?thesis
    by (simp add: DWaveQPU_terms_spec example_spec_term_list)
qed

lemma example_DWaveSA_terms:
  "DWaveSA_terms example_instance = Some [(0, 0, 1), (2, 2, - 2), (0, 2, 7 / 2)]"
  by (simp add: DWaveSA_terms_eq example_DWaveQPU_terms)

lemma DWaveQPU_reports_cerr:
  assumes t: "DWaveQPU_terms qi = Some terms"
    and r: "run_dwave_solver u py terms ''qpu'' [] (Ptr []) w = (Returned res, Ptr error, w1)"
  shows "fst (DWaveQPU u py qi rl v qc w) = Returned ()"
    and "reports (snd (DWaveQPU u py qi rl v qc w)) =
           (if error = [] \<and> best_sample res \<noteq> [] then
              reports w @
              [\<lparr>assignments = best_sample res, instance_of = qi,
                   heuristic_of = \<lparr>heur_runtime_limit = rl, heur_validation = v,
                     heur_callback = qc\<rparr>\<rparr>]
            else reports w)"
    and "cerr (snd (DWaveQPU u py qi rl v qc w)) =
           (if error \<noteq> [] then cerr w @ [''DWaveQPU error: '' @ error]
            else if best_sample res = [] then cerr w @ [''DWaveQPU: no sample returned'']
            else cerr w)"
  using run_dwave_solver_frame[OF r] by (simp_all add: DWaveQPU_returned[OF t r])

lemma DWaveQPU_reports_other:
  assumes "DWaveQPU_terms qi = None
         \<or> (\<exists>terms e em w1. DWaveQPU_terms qi = Some terms
              \<and> run_dwave_solver u py terms ''qpu'' [] (Ptr []) w = (Propagated e, em, w1))"
  shows "reports (snd (DWaveQPU u py qi rl v qc w)) = reports w"
    and "cerr (snd (DWaveQPU u py qi rl v qc w)) = cerr w"
  using assms
  by (auto simp: DWaveQPU_no_terms DWaveQPU_propagated dest: run_dwave_solver_frame)

lemma DWaveQPU_reports_at_most_once:
  "reports (snd (DWaveQPU u py qi rl v qc w)) = reports w
   \<or> (\<exists>sol. reports (snd (DWaveQPU u py qi rl v qc w)) = reports w @ [sol])"
proof (cases rule: DWaveQPU_cases[where qi=qi and u=u and py=py and w=w])
  case no_terms
  then show ?thesis by (simp add: DWaveQPU_reports_other)
next
  case (propagated terms e em w1)
  then have "reports (snd (DWaveQPU u py qi rl v qc w)) = reports w"
    by (intro DWaveQPU_reports_other) blast
  then show ?thesis by simp
next
  case (returned terms res error w1)
  then show ?thesis by (simp add: DWaveQPU_reports_cerr)
qed

lemma DWaveQPU_reports_iff:
  "(reports (snd (DWaveQPU u py qi rl v qc w)) \<noteq> reports w) =
     (\<exists>terms res w1.
        DWaveQPU_terms qi = Some terms
      \<and> run_dwave_solver u py terms ''qpu'' [] (Ptr []) w = (Returned res, Ptr [], w1)
      \<and> best_sample res \<noteq> [])"
proof (cases rule: DWaveQPU_cases[where qi=qi and u=u and py=py and w=w])
  case no_terms
  then show ?thesis by (simp add: DWaveQPU_reports_other)
next
  case (propagated terms e em w1)
  then have "reports (snd (DWaveQPU u py qi rl v qc w)) = reports w"
    by (intro DWaveQPU_reports_other) blast
  with propagated show ?thesis by simp
next
  case (returned terms res error w1)
  then show ?thesis by (auto simp: DWaveQPU_reports_cerr)
qed

lemma stub_DWaveQPU_raises:
  "DWaveQPU True (stub_python (Inl (StdException what))) example_instance rl v qc fresh_world =
     (Returned (),
      if what \<noteq> [] then
        fresh_world\<lparr>env_constructed := True,
          pylog := Py_Initialize # stub_prefix @
            [Invoke (PyObject ''solve_qubo'')
               [terms_py [(0, 0, 1), (2, 2, - 2), (0, 2, 7 / 2)], PyStr ''qpu'', PyNone]],
          bridge_calls := [([(0, 0, 1), (2, 2, - 2), (0, 2, 7 / 2)], ''qpu'', [])],
          cerr := [''DWaveQPU error: '' @ what]\<rparr>
      else
        fresh_world\<lparr>env_constructed := True,
          pylog := Py_Initialize # stub_prefix @
            [Invoke (PyObject ''solve_qubo'')
               [terms_py [(0, 0, 1), (2, 2, - 2), (0, 2, 7 / 2)], PyStr ''qpu'', PyNone]],
          bridge_calls := [([(0, 0, 1), (2, 2, - 2), (0, 2, 7 / 2)], ''qpu'', [])],
          cerr := [''DWaveQPU: no sample returned'']\<rparr>)"
  by (simp add: DWaveQPU_def example_DWaveQPU_terms stub_run_raises cfg_path_obj_def fresh_world_fields)

lemma stub_DWaveQPU_answers:
  assumes "ints_of xs = Some sample"
  shows "fst (DWaveQPU True (stub_python (Inr (PyTuple [PyList xs, PyFloat weight])))
                example_instance rl v qc fresh_world) = Returned ()"
    and "map assignments (reports (snd (DWaveQPU True
           (stub_python (Inr (PyTuple [PyList xs, PyFloat weight])))
           example_instance rl v qc fresh_world))) = (if sample = [] then [] else [sample])"
    and "cerr (snd (DWaveQPU True (stub_python (Inr (PyTuple [PyList xs, PyFloat weight])))
                example_instance rl v qc fresh_world)) =
           (if sample = [] then [''DWaveQPU: no sample returned''] else [])"
  by (simp_all add: DWaveQPU_def example_DWaveQPU_terms stub_run_answers[OF assms] fresh_world_fields)

lemma DWaveSA_reports_cerr:
  assumes t: "DWaveSA_terms qi = Some terms"
    and r: "run_dwave_solver u py terms ''sa'' [] (Ptr []) w = (Returned res, Ptr error, w1)"
  shows "fst (DWaveSA u py qi rl v qc w) = Returned ()"
    and "reports (snd (DWaveSA u py qi rl v qc w)) =
           (if error = [] \<and> best_sample res \<noteq> [] then
              reports w @
              [\<lparr>assignments = best_sample res, instance_of = qi,
                   heuristic_of = \<lparr>heur_runtime_limit = rl, heur_validation = v,
                     heur_callback = qc\<rparr>\<rparr>]
            else reports w)"
    and "cerr (snd (DWaveSA u py qi rl v qc w)) =
           (if error \<noteq> [] then cerr w @ [''DWaveSA error: '' @ error]
            else if best_sample res = [] then cerr w @ [''DWaveSA: no sample returned'']
            else cerr w)"
  using run_dwave_solver_frame[OF r] by (simp_all add: DWaveSA_returned[OF t r])

lemma DWaveSA_reports_other:
  assumes "DWaveSA_terms qi = None
         \<or> (\<exists>terms e em w1. DWaveSA_terms qi = Some terms
              \<and> run_dwave_solver u py terms ''sa'' [] (Ptr []) w = (Propagated e, em, w1))"
  shows "reports (snd (DWaveSA u py qi rl v qc w)) = reports w"
    and "cerr (snd (DWaveSA u py qi rl v qc w)) = cerr w"
  using assms
  by (auto simp: DWaveSA_no_terms DWaveSA_propagated dest: run_dwave_solver_frame)

lemma DWaveSA_reports_at_most_once:
  "reports (snd (DWaveSA u py qi rl v qc w)) = reports w
   \<or> (\<exists>sol. reports (snd (DWaveSA u py qi rl v qc w)) = reports w @ [sol])"
proof (cases rule: DWaveSA_cases[where qi=qi and u=u and py=py and w=w])
  case no_terms
  then show ?thesis by (simp add: DWaveSA_reports_other)
next
  case (propagated terms e em w1)
  then have "reports (snd (DWaveSA u py qi rl v qc w)) = reports w"
    by (intro DWaveSA_reports_other) blast
  then show ?thesis by simp
next
  case (returned terms res error w1)
  then show ?thesis by (simp add: DWaveSA_reports_cerr)
qed

lemma DWaveSA_reports_iff:
  "(reports (snd (DWaveSA u py qi rl v qc w)) \<noteq> reports w) =
     (\<exists>terms res w1.
        DWaveSA_terms qi = Some terms
      \<and> run_dwave_solver u py terms ''sa'' [] (Ptr []) w = (Returned res, Ptr [], w1)
      \<and> best_sample res \<noteq> [])"
proof (cases rule: DWaveSA_cases[where qi=qi and u=u and py=py and w=w])
  case no_terms
  then show ?thesis by (simp add: DWaveSA_reports_other)
next
  case (propagated terms e em w1)
  then have "reports (snd (DWaveSA u py qi rl v qc w)) = reports w"
    by (intro DWaveSA_reports_other) blast
  with propagated show ?thesis by simp
next
  case (returned terms res error w1)
  then show ?thesis by (auto simp: DWaveSA_reports_cerr)
qed

lemma stub_DWaveSA_raises:
  "DWaveSA True (stub_python (Inl (StdException what))) example_instance rl v qc fresh_world =
     (Returned (),
      if what \<noteq> [] then
        fresh_world\<lparr>env_constructed := True,
          pylog := Py_Initialize # stub_prefix @
            [Invoke (PyObject ''solve_qubo'')
               [terms_py [(0, 0, 1), (2, 2, - 2), (0, 2, 7 / 2)], PyStr ''sa'', PyNone]],
          bridge_calls := [([(0, 0, 1), (2, 2, - 2), (0, 2, 7 / 2)], ''sa'', [])],
          cerr := [''DWaveSA error: '' @ what]\<rparr>
      else
        fresh_world\<lparr>env_constructed := True,
          pylog := Py_Initialize # stub_prefix @
            [Invoke (PyObject ''solve_qubo'')
               [terms_py [(0, 0, 1), (2, 2, - 2), (0, 2, 7 / 2)], PyStr ''sa'', PyNone]],
          bridge_calls := [([(0, 0, 1), (2, 2, - 2), (0, 2, 7 / 2)], ''sa'', [])],
          cerr := [''DWaveSA: no sample returned'']\<rparr>)"
  by (simp add: DWaveSA_def example_DWaveSA_terms stub_run_raises cfg_path_obj_def fresh_world_fields)

lemma stub_DWaveSA_answers:
  assumes "ints_of xs = Some sample"
  shows "fst (DWaveSA True (stub_python (Inr (PyTuple [PyList xs, PyFloat weight])))
                example_instance rl v qc fresh_world) = Returned ()"
    and "map assignments (reports (snd (DWaveSA True
           (stub_python (Inr (PyTuple [PyList xs, PyFloat weight])))
           example_instance rl v qc fresh_world))) = (if sample = [] then [] else [sample])"
    and "cerr (snd (DWaveSA True (stub_python (Inr (PyTuple [PyList xs, PyFloat weight])))
                example_instance rl v qc fresh_world)) =
           (if sample = [] then [''DWaveSA: no sample returned''] else [])"
  by (simp_all add: DWaveSA_def example_DWaveSA_terms stub_run_answers[OF assms] fresh_world_fields)

subsection \<open>The empty sample\<close>

text \<open>
  C5, as amended. When the bridge returns an assignment of length 0, either adapter
  treats the call as a failure: it writes one diagnostic, builds no solution and does
  not call \<^verbatim>\<open>Report\<close>. The length of a non-empty assignment is not compared with the
  size of the instance: a non-empty assignment, whatever its length, is handed to the
  solution object and reported.
\<close>

theorem empty_sample_is_failure:
  "(\<forall>terms res error w1.
          DWaveQPU_terms qi = Some terms \<longrightarrow>
          run_dwave_solver u py terms ''qpu'' [] (Ptr []) w = (Returned res, Ptr error, w1) \<longrightarrow>
            (best_sample res = [] \<longrightarrow>
               fst (DWaveQPU u py qi rl v qc w) = Returned ()
             \<and> reports (snd (DWaveQPU u py qi rl v qc w)) = reports w
             \<and> cerr (snd (DWaveQPU u py qi rl v qc w)) =
                 cerr w @ [if error \<noteq> [] then ''DWaveQPU error: '' @ error
                           else ''DWaveQPU: no sample returned''])
          \<and> (best_sample res \<noteq> [] \<longrightarrow>
               fst (DWaveQPU u py qi rl v qc w) = Returned ()
             \<and> reports (snd (DWaveQPU u py qi rl v qc w)) =
                 reports w @
                 [\<lparr>assignments = best_sample res, instance_of = qi,
                   heuristic_of = \<lparr>heur_runtime_limit = rl, heur_validation = v,
                     heur_callback = qc\<rparr>\<rparr>]
             \<and> cerr (snd (DWaveQPU u py qi rl v qc w)) = cerr w))
   \<and> (\<forall>terms res error w1.
          DWaveSA_terms qi = Some terms \<longrightarrow>
          run_dwave_solver u py terms ''sa'' [] (Ptr []) w = (Returned res, Ptr error, w1) \<longrightarrow>
            (best_sample res = [] \<longrightarrow>
               fst (DWaveSA u py qi rl v qc w) = Returned ()
             \<and> reports (snd (DWaveSA u py qi rl v qc w)) = reports w
             \<and> cerr (snd (DWaveSA u py qi rl v qc w)) =
                 cerr w @ [if error \<noteq> [] then ''DWaveSA error: '' @ error
                           else ''DWaveSA: no sample returned''])
          \<and> (best_sample res \<noteq> [] \<longrightarrow>
               fst (DWaveSA u py qi rl v qc w) = Returned ()
             \<and> reports (snd (DWaveSA u py qi rl v qc w)) =
                 reports w @
                 [\<lparr>assignments = best_sample res, instance_of = qi,
                   heuristic_of = \<lparr>heur_runtime_limit = rl, heur_validation = v,
                     heur_callback = qc\<rparr>\<rparr>]
             \<and> cerr (snd (DWaveSA u py qi rl v qc w)) = cerr w))"
  by (auto simp: DWaveQPU_reports_cerr DWaveSA_reports_cerr
           dest: run_dwave_solver_sample_no_error)

theorem empty_sample_is_failure_witness:
  "DWaveQPU_terms example_instance = Some [(0, 0, 1), (2, 2, - 2), (0, 2, 7 / 2)]
   \<and> DWaveSA_terms example_instance = Some [(0, 0, 1), (2, 2, - 2), (0, 2, 7 / 2)]
   \<and> fst (run_dwave_solver True (stub_python (Inr (PyTuple [PyList [], PyFloat 0])))
            [(0, 0, 1), (2, 2, - 2), (0, 2, 7 / 2)] ''qpu'' [] (Ptr []) fresh_world) =
       Returned \<lparr>best_sample = [], best_weight = 0\<rparr>
   \<and> fst (DWaveQPU True (stub_python (Inr (PyTuple [PyList [], PyFloat 0])))
            example_instance 1 False None fresh_world) = Returned ()
   \<and> reports (snd (DWaveQPU True (stub_python (Inr (PyTuple [PyList [], PyFloat 0])))
            example_instance 1 False None fresh_world)) = []
   \<and> cerr (snd (DWaveQPU True (stub_python (Inr (PyTuple [PyList [], PyFloat 0])))
            example_instance 1 False None fresh_world)) = [''DWaveQPU: no sample returned'']
   \<and> fst (run_dwave_solver True
            (stub_python (Inr (PyTuple [PyList [PyInt 1, PyInt 0, PyInt 1], PyFloat (- 1 / 2)])))
            [(0, 0, 1), (2, 2, - 2), (0, 2, 7 / 2)] ''sa'' [] (Ptr []) fresh_world) =
       Returned \<lparr>best_sample = [1, 0, 1], best_weight = - 1 / 2\<rparr>
   \<and> reports (snd (DWaveSA True
            (stub_python (Inr (PyTuple [PyList [PyInt 1, PyInt 0, PyInt 1], PyFloat (- 1 / 2)])))
            example_instance 1 False None fresh_world)) =
       [\<lparr>assignments = [1, 0, 1], instance_of = example_instance,
         heuristic_of = \<lparr>heur_runtime_limit = 1, heur_validation = False,
           heur_callback = None\<rparr>\<rparr>]
   \<and> cerr (snd (DWaveSA True
            (stub_python (Inr (PyTuple [PyList [PyInt 1, PyInt 0, PyInt 1], PyFloat (- 1 / 2)])))
            example_instance 1 False None fresh_world)) = []"
proof -
  let ?none = "stub_python (Inr (PyTuple [PyList [], PyFloat 0]))"
  let ?ok = "stub_python (Inr (PyTuple [PyList [PyInt 1, PyInt 0, PyInt 1], PyFloat (- 1 / 2)]))"
  let ?t = "[(0, 0, 1), (2, 2, - 2), (0, 2, 7 / 2)] :: qubo_term list"
  have i: "ints_of [] = Some []" and j: "ints_of [PyInt 1, PyInt 0, PyInt 1] = Some [1, 0, 1]"
    by simp_all
  note r = stub_run_answers[OF i, of 0 ?t "''qpu''" "[]" "[]"]
  note s = stub_run_answers[OF j, of "- 1 / 2" ?t "''sa''" "[]" "[]"]
  from empty_sample_is_failure[of example_instance True ?none fresh_world 1 False None]
    example_DWaveQPU_terms r
  have 1: "fst (DWaveQPU True ?none example_instance 1 False None fresh_world) = Returned ()
      \<and> reports (snd (DWaveQPU True ?none example_instance 1 False None fresh_world)) =
          reports fresh_world
      \<and> cerr (snd (DWaveQPU True ?none example_instance 1 False None fresh_world)) =
          cerr fresh_world @ [''DWaveQPU: no sample returned'']"
    by simp
  from empty_sample_is_failure[of example_instance True ?ok fresh_world 1 False None]
    example_DWaveSA_terms s
  have 2: "reports (snd (DWaveSA True ?ok example_instance 1 False None fresh_world)) =
          reports fresh_world @
          [\<lparr>assignments = [1, 0, 1], instance_of = example_instance,
            heuristic_of = \<lparr>heur_runtime_limit = 1, heur_validation = False,
              heur_callback = None\<rparr>\<rparr>]
      \<and> cerr (snd (DWaveSA True ?ok example_instance 1 False None fresh_world)) =
          cerr fresh_world"
    by simp
  from 1 2 show ?thesis
    by (simp add: example_DWaveQPU_terms example_DWaveSA_terms stub_run_answers[OF i]
          stub_run_answers[OF j] fresh_world_fields)
qed

text \<open>
  C5 as stated fails: for the instance of size 3, a returned assignment of length 1 is
  reported by both adapters, and neither writes a diagnostic.
\<close>

theorem short_sample_is_reported_counterexample:
  "get_size example_instance = 3
   \<and> map assignments (reports (snd (DWaveQPU True
        (stub_python (Inr (PyTuple [PyList [PyInt 1], PyFloat 0])))
        example_instance 1 False None fresh_world))) = [[1]]
   \<and> cerr (snd (DWaveQPU True (stub_python (Inr (PyTuple [PyList [PyInt 1], PyFloat 0])))
        example_instance 1 False None fresh_world)) = []
   \<and> map assignments (reports (snd (DWaveSA True
        (stub_python (Inr (PyTuple [PyList [PyInt 1], PyFloat 0])))
        example_instance 1 False None fresh_world))) = [[1]]
   \<and> cerr (snd (DWaveSA True (stub_python (Inr (PyTuple [PyList [PyInt 1], PyFloat 0])))
        example_instance 1 False None fresh_world)) = []"
proof -
  have i: "ints_of [PyInt 1] = Some [1]"
    by simp
  have "get_size example_instance = 3"
    by (simp add: get_size_def example_instance_def)
  then show ?thesis
    by (simp add: stub_DWaveQPU_answers[OF i] stub_DWaveSA_answers[OF i])
qed

subsection \<open>One report, when the bridge returns\<close>

text \<open>
  In every run of either adapter \<^verbatim>\<open>Report\<close> is called at most once, and it is called
  exactly when the bridge returned with an empty error message and a non-empty
  assignment. Whenever the bridge returned with an error message or with an empty
  assignment, the adapter writes one diagnostic that names the adapter and the reason
  (the error message, or "no sample returned"), reports nothing and returns normally.
\<close>

lemma report_exactly_on_success:
  "(reports (snd (DWaveQPU u py qi rl v qc w)) = reports w
        \<or> (\<exists>sol. reports (snd (DWaveQPU u py qi rl v qc w)) = reports w @ [sol]))
   \<and> (reports (snd (DWaveQPU u py qi rl v qc w)) \<noteq> reports w) =
       (\<exists>terms res w1.
          DWaveQPU_terms qi = Some terms
        \<and> run_dwave_solver u py terms ''qpu'' [] (Ptr []) w = (Returned res, Ptr [], w1)
        \<and> best_sample res \<noteq> [])
   \<and> (\<forall>terms res error w1.
          DWaveQPU_terms qi = Some terms \<longrightarrow>
          run_dwave_solver u py terms ''qpu'' [] (Ptr []) w = (Returned res, Ptr error, w1) \<longrightarrow>
          error \<noteq> [] \<or> best_sample res = [] \<longrightarrow>
            fst (DWaveQPU u py qi rl v qc w) = Returned ()
          \<and> reports (snd (DWaveQPU u py qi rl v qc w)) = reports w
          \<and> cerr (snd (DWaveQPU u py qi rl v qc w)) =
              cerr w @ [if error \<noteq> [] then ''DWaveQPU error: '' @ error
                        else ''DWaveQPU: no sample returned''])
   \<and> (reports (snd (DWaveSA u py qi rl v qc w)) = reports w
        \<or> (\<exists>sol. reports (snd (DWaveSA u py qi rl v qc w)) = reports w @ [sol]))
   \<and> (reports (snd (DWaveSA u py qi rl v qc w)) \<noteq> reports w) =
       (\<exists>terms res w1.
          DWaveSA_terms qi = Some terms
        \<and> run_dwave_solver u py terms ''sa'' [] (Ptr []) w = (Returned res, Ptr [], w1)
        \<and> best_sample res \<noteq> [])
   \<and> (\<forall>terms res error w1.
          DWaveSA_terms qi = Some terms \<longrightarrow>
          run_dwave_solver u py terms ''sa'' [] (Ptr []) w = (Returned res, Ptr error, w1) \<longrightarrow>
          error \<noteq> [] \<or> best_sample res = [] \<longrightarrow>
            fst (DWaveSA u py qi rl v qc w) = Returned ()
          \<and> reports (snd (DWaveSA u py qi rl v qc w)) = reports w
          \<and> cerr (snd (DWaveSA u py qi rl v qc w)) =
              cerr w @ [if error \<noteq> [] then ''DWaveSA error: '' @ error
                        else ''DWaveSA: no sample returned''])"
  using DWaveQPU_reports_at_most_once[of u py qi rl v qc w]
    DWaveSA_reports_at_most_once[of u py qi rl v qc w]
    DWaveQPU_reports_iff[of u py qi rl v qc w] DWaveSA_reports_iff[of u py qi rl v qc w]
  by (auto simp: DWaveQPU_reports_cerr DWaveSA_reports_cerr)

lemma report_exactly_on_success_example:
  "DWaveQPU_terms example_instance = Some [(0, 0, 1), (2, 2, - 2), (0, 2, 7 / 2)]
   \<and> DWaveSA_terms example_instance = Some [(0, 0, 1), (2, 2, - 2), (0, 2, 7 / 2)]
   \<and> fst (snd (run_dwave_solver True (stub_python (Inl (StdException ''timeout'')))
            [(0, 0, 1), (2, 2, - 2), (0, 2, 7 / 2)] ''qpu'' [] (Ptr []) fresh_world)) =
       Ptr ''timeout''
   \<and> fst (DWaveQPU True (stub_python (Inl (StdException ''timeout'')))
            example_instance 1 True None fresh_world) = Returned ()
   \<and> reports (snd (DWaveQPU True (stub_python (Inl (StdException ''timeout'')))
            example_instance 1 True None fresh_world)) = []
   \<and> cerr (snd (DWaveQPU True (stub_python (Inl (StdException ''timeout'')))
            example_instance 1 True None fresh_world)) = [''DWaveQPU error: timeout'']
   \<and> fst (DWaveSA True (stub_python (Inl (StdException ''timeout'')))
            example_instance 1 True None fresh_world) = Returned ()
   \<and> reports (snd (DWaveSA True (stub_python (Inl (StdException ''timeout'')))
            example_instance 1 True None fresh_world)) = []
   \<and> cerr (snd (DWaveSA True (stub_python (Inl (StdException ''timeout'')))
            example_instance 1 True None fresh_world)) = [''DWaveSA error: timeout'']
   \<and> map assignments (reports (snd (DWaveQPU True
        (stub_python (Inr (PyTuple [PyList [PyInt 1, PyInt 0, PyInt 1], PyFloat (- 1 / 2)])))
        example_instance 1 True None fresh_world))) = [[1, 0, 1]]"
proof -
  let ?py = "stub_python (Inl (StdException ''timeout''))"
  let ?t = "[(0, 0, 1), (2, 2, - 2), (0, 2, 7 / 2)] :: qubo_term list"
  note q = stub_run_raises[of "''timeout''" ?t "''qpu''" "[]" "[]"]
  note s = stub_run_raises[of "''timeout''" ?t "''sa''" "[]" "[]"]
  from report_exactly_on_success[of True ?py example_instance 1 True None fresh_world]
    example_DWaveQPU_terms example_DWaveSA_terms q s
  have "fst (DWaveQPU True ?py example_instance 1 True None fresh_world) = Returned ()
      \<and> reports (snd (DWaveQPU True ?py example_instance 1 True None fresh_world)) =
          reports fresh_world
      \<and> cerr (snd (DWaveQPU True ?py example_instance 1 True None fresh_world)) =
          cerr fresh_world @ [''DWaveQPU error: timeout'']
      \<and> fst (DWaveSA True ?py example_instance 1 True None fresh_world) = Returned ()
      \<and> reports (snd (DWaveSA True ?py example_instance 1 True None fresh_world)) =
          reports fresh_world
      \<and> cerr (snd (DWaveSA True ?py example_instance 1 True None fresh_world)) =
          cerr fresh_world @ [''DWaveSA error: timeout'']"
    by simp
  moreover have "ints_of [PyInt 1, PyInt 0, PyInt 1] = Some [1, 0, 1]"
    by simp
  ultimately show ?thesis
    by (simp add: example_DWaveQPU_terms example_DWaveSA_terms q stub_DWaveQPU_answers)
       (simp add: fresh_world_fields)
qed

subsection \<open>When the interpreter cannot be started\<close>

lemma no_start_get_env:
  "get_env no_start_python fresh_world =
     (Inl (StdException ''Failed to init CPython''), fresh_world\<lparr>pylog := [Py_Initialize]\<rparr>)"
  by (simp add: get_env_def no_start_python_def fresh_world_fields)

lemma no_start_run:
  "run_dwave_solver True no_start_python t b c em fresh_world =
     (Propagated (StdException ''Failed to init CPython''), em,
      fresh_world\<lparr>pylog := [Py_Initialize], bridge_calls := [(t, b, c)]\<rparr>)"
  unfolding run_dwave_solver_build run_dwave_solver_enabled_eq no_start_get_env
  by (simp add: fresh_world_fields)

text \<open>
  C6 fails on the code. The claim asks that in every run of an adapter a failure ends
  in a diagnostic that names the adapter and the reason, with no solution and nothing
  raised. \<^verbatim>\<open>run_dwave_solver\<close> calls \<^verbatim>\<open>get_env\<close> before its \<^verbatim>\<open>try\<close> block, and neither
  constructor has a handler of its own. Against an interpreter that cannot be started,
  for the instance of size 3, the exception of the start-up leaves the bridge and both
  constructors: no error message is written, nothing goes to \<^verbatim>\<open>std::cerr\<close>, nothing is
  reported.
\<close>

theorem adapter_propagates_startup_exception:
  "run_dwave_solver True no_start_python [(0, 0, 1), (2, 2, - 2), (0, 2, 7 / 2)] ''qpu'' []
       (Ptr []) fresh_world =
     (Propagated (StdException ''Failed to init CPython''), Ptr [],
      fresh_world\<lparr>pylog := [Py_Initialize],
        bridge_calls := [([(0, 0, 1), (2, 2, - 2), (0, 2, 7 / 2)], ''qpu'', [])]\<rparr>)
   \<and> DWaveQPU True no_start_python example_instance 1 True None fresh_world =
     (Propagated (StdException ''Failed to init CPython''),
      fresh_world\<lparr>pylog := [Py_Initialize],
        bridge_calls := [([(0, 0, 1), (2, 2, - 2), (0, 2, 7 / 2)], ''qpu'', [])]\<rparr>)
   \<and> cerr (snd (DWaveQPU True no_start_python example_instance 1 True None fresh_world)) = []
   \<and> reports (snd (DWaveQPU True no_start_python example_instance 1 True None fresh_world)) = []
   \<and> DWaveSA True no_start_python example_instance 1 True None fresh_world =
     (Propagated (StdException ''Failed to init CPython''),
      fresh_world\<lparr>pylog := [Py_Initialize],
        bridge_calls := [([(0, 0, 1), (2, 2, - 2), (0, 2, 7 / 2)], ''sa'', [])]\<rparr>)
   \<and> cerr (snd (DWaveSA True no_start_python example_instance 1 True None fresh_world)) = []
   \<and> reports (snd (DWaveSA True no_start_python example_instance 1 True None fresh_world)) = []"
  by (simp add: DWaveQPU_def DWaveSA_def example_DWaveQPU_terms example_DWaveSA_terms
        no_start_run fresh_world_fields)

section \<open>The two adapters side by side\<close>

text \<open>
  C7. The two adapters differ in the backend name and in the adapter name of their
  diagnostics, and in nothing else: for every instance they build the same term list,
  each calls the bridge once with that list and with the empty config path, \<open>DWaveQPU\<close>
  with the backend "qpu" and \<open>DWaveSA\<close> with "sa"; and whenever the bridge gives both
  the same result and the same error message, they end the same way, report the same
  solutions and write the same diagnostics up to the adapter name in front.
\<close>

theorem adapters_differ_in_backend_only:
  "DWaveSA_terms qi = DWaveQPU_terms qi
   \<and> bridge_calls (snd (DWaveQPU u py qi rl v qc w)) =
       (case DWaveQPU_terms qi of
          None \<Rightarrow> bridge_calls w
        | Some terms \<Rightarrow> bridge_calls w @ [(terms, ''qpu'', [])])
   \<and> bridge_calls (snd (DWaveSA u py qi rl v qc w)) =
       (case DWaveQPU_terms qi of
          None \<Rightarrow> bridge_calls w
        | Some terms \<Rightarrow> bridge_calls w @ [(terms, ''sa'', [])])
   \<and> map (\<lambda>(terms, backend, config). (terms, config))
         (bridge_calls (snd (DWaveQPU u py qi rl v qc w))) =
       map (\<lambda>(terms, backend, config). (terms, config))
         (bridge_calls (snd (DWaveSA u py qi rl v qc w)))
   \<and> (\<forall>terms res error w1 w2.
          DWaveQPU_terms qi = Some terms \<longrightarrow>
          run_dwave_solver u py terms ''qpu'' [] (Ptr []) w = (Returned res, Ptr error, w1) \<longrightarrow>
          run_dwave_solver u py terms ''sa'' [] (Ptr []) w = (Returned res, Ptr error, w2) \<longrightarrow>
            fst (DWaveQPU u py qi rl v qc w) = fst (DWaveSA u py qi rl v qc w)
          \<and> reports (snd (DWaveQPU u py qi rl v qc w)) =
              reports (snd (DWaveSA u py qi rl v qc w))
          \<and> map (drop (length ''DWaveQPU''))
                (drop (length (cerr w)) (cerr (snd (DWaveQPU u py qi rl v qc w)))) =
              map (drop (length ''DWaveSA''))
                (drop (length (cerr w)) (cerr (snd (DWaveSA u py qi rl v qc w)))))"
proof -
  have calls: "bridge_calls (snd (DWaveSA u py qi rl v qc w)) =
       (case DWaveQPU_terms qi of
          None \<Rightarrow> bridge_calls w
        | Some terms \<Rightarrow> bridge_calls w @ [(terms, ''sa'', [])])"
    by (simp add: DWaveSA_bridge_calls DWaveSA_terms_eq)
  have same: "map (\<lambda>(terms, backend, config). (terms, config))
         (bridge_calls (snd (DWaveQPU u py qi rl v qc w))) =
       map (\<lambda>(terms, backend, config). (terms, config))
         (bridge_calls (snd (DWaveSA u py qi rl v qc w)))"
    by (simp add: calls DWaveQPU_bridge_calls split: option.splits)
  have ends: "fst (DWaveQPU u py qi rl v qc w) = fst (DWaveSA u py qi rl v qc w)
          \<and> reports (snd (DWaveQPU u py qi rl v qc w)) =
              reports (snd (DWaveSA u py qi rl v qc w))
          \<and> map (drop (length ''DWaveQPU''))
                (drop (length (cerr w)) (cerr (snd (DWaveQPU u py qi rl v qc w)))) =
              map (drop (length ''DWaveSA''))
                (drop (length (cerr w)) (cerr (snd (DWaveSA u py qi rl v qc w))))"
    if t: "DWaveQPU_terms qi = Some terms"
      and q: "run_dwave_solver u py terms ''qpu'' [] (Ptr []) w = (Returned res, Ptr error, w1)"
      and s: "run_dwave_solver u py terms ''sa'' [] (Ptr []) w = (Returned res, Ptr error, w2)"
    for terms res error w1 w2
  proof -
    from t have t': "DWaveSA_terms qi = Some terms"
      by (simp add: DWaveSA_terms_eq)
    show ?thesis
      by (simp add: DWaveQPU_reports_cerr[OF t q] DWaveSA_reports_cerr[OF t' s])
  qed
  show ?thesis
    using calls same ends by (simp add: DWaveSA_terms_eq DWaveQPU_bridge_calls)
qed

theorem adapters_differ_in_backend_only_witness:
  "DWaveQPU_terms example_instance = Some [(0, 0, 1), (2, 2, - 2), (0, 2, 7 / 2)]
   \<and> fst (snd (run_dwave_solver True (stub_python (Inl (StdException ''timeout'')))
            [(0, 0, 1), (2, 2, - 2), (0, 2, 7 / 2)] ''qpu'' [] (Ptr []) fresh_world)) =
       fst (snd (run_dwave_solver True (stub_python (Inl (StdException ''timeout'')))
            [(0, 0, 1), (2, 2, - 2), (0, 2, 7 / 2)] ''sa'' [] (Ptr []) fresh_world))
   \<and> fst (DWaveQPU True (stub_python (Inl (StdException ''timeout'')))
            example_instance 1 True None fresh_world) =
       fst (DWaveSA True (stub_python (Inl (StdException ''timeout'')))
            example_instance 1 True None fresh_world)
   \<and> cerr (snd (DWaveQPU True (stub_python (Inl (StdException ''timeout'')))
            example_instance 1 True None fresh_world)) = [''DWaveQPU error: timeout'']
   \<and> cerr (snd (DWaveSA True (stub_python (Inl (StdException ''timeout'')))
            example_instance 1 True None fresh_world)) = [''DWaveSA error: timeout'']
   \<and> bridge_calls (snd (DWaveQPU True (stub_python (Inl (StdException ''timeout'')))
            example_instance 1 True None fresh_world)) =
       [([(0, 0, 1), (2, 2, - 2), (0, 2, 7 / 2)], ''qpu'', [])]
   \<and> bridge_calls (snd (DWaveSA True (stub_python (Inl (StdException ''timeout'')))
            example_instance 1 True None fresh_world)) =
       [([(0, 0, 1), (2, 2, - 2), (0, 2, 7 / 2)], ''sa'', [])]"
proof -
  let ?py = "stub_python (Inl (StdException ''timeout''))"
  let ?t = "[(0, 0, 1), (2, 2, - 2), (0, 2, 7 / 2)] :: qubo_term list"
  note q = stub_run_raises[of "''timeout''" ?t "''qpu''" "[]" "[]"]
  note s = stub_run_raises[of "''timeout''" ?t "''sa''" "[]" "[]"]
  from adapters_differ_in_backend_only[of example_instance True ?py 1 True None fresh_world]
    example_DWaveQPU_terms q s
  have "fst (DWaveQPU True ?py example_instance 1 True None fresh_world) =
          fst (DWaveSA True ?py example_instance 1 True None fresh_world)
      \<and> bridge_calls (snd (DWaveQPU True ?py example_instance 1 True None fresh_world)) =
          bridge_calls fresh_world @ [(?t, ''qpu'', [])]
      \<and> bridge_calls (snd (DWaveSA True ?py example_instance 1 True None fresh_world)) =
          bridge_calls fresh_world @ [(?t, ''sa'', [])]"
    by simp
  then show ?thesis
    by (simp add: example_DWaveQPU_terms q s stub_DWaveQPU_raises stub_DWaveSA_raises
          fresh_world_fields)
qed

section \<open>What the bridge is sent\<close>

lemma DWaveQPU_ignores_budget_and_flags:
  "fst (DWaveQPU u py qi rl v qc w) = fst (DWaveQPU u py qi rl' v' qc' w)
   \<and> pylog (snd (DWaveQPU u py qi rl v qc w)) = pylog (snd (DWaveQPU u py qi rl' v' qc' w))
   \<and> cerr (snd (DWaveQPU u py qi rl v qc w)) = cerr (snd (DWaveQPU u py qi rl' v' qc' w))"
proof (cases rule: DWaveQPU_cases[where qi=qi and u=u and py=py and w=w])
  case no_terms
  then show ?thesis by (simp add: DWaveQPU_no_terms)
next
  case (propagated terms e em w1)
  then show ?thesis by (simp add: DWaveQPU_propagated[OF propagated])
next
  case (returned terms res error w1)
  then show ?thesis by (simp add: DWaveQPU_returned[OF returned])
qed

lemma DWaveSA_ignores_budget_and_flags:
  "fst (DWaveSA u py qi rl v qc w) = fst (DWaveSA u py qi rl' v' qc' w)
   \<and> pylog (snd (DWaveSA u py qi rl v qc w)) = pylog (snd (DWaveSA u py qi rl' v' qc' w))
   \<and> cerr (snd (DWaveSA u py qi rl v qc w)) = cerr (snd (DWaveSA u py qi rl' v' qc' w))"
proof (cases rule: DWaveSA_cases[where qi=qi and u=u and py=py and w=w])
  case no_terms
  then show ?thesis by (simp add: DWaveSA_no_terms)
next
  case (propagated terms e em w1)
  then show ?thesis by (simp add: DWaveSA_propagated[OF propagated])
next
  case (returned terms res error w1)
  then show ?thesis by (simp add: DWaveSA_returned[OF returned])
qed

text \<open>
  C10. What an adapter sends to the bridge depends on the instance only. Two runs of the
  same adapter on the same instance, from the same state of the process and against
  the same interpreter, that differ in the runtime limit, the validation flag or the
  callback pointer call \<^verbatim>\<open>run_dwave_solver\<close> with the same term list, backend and
  config path, make the same calls into the interpreter, end the same way and write
  the same diagnostics.
\<close>

theorem bridge_arguments_depend_on_instance_only:
  "bridge_calls (snd (DWaveQPU u py qi rl v qc w)) =
     bridge_calls (snd (DWaveQPU u py qi rl' v' qc' w))
   \<and> pylog (snd (DWaveQPU u py qi rl v qc w)) = pylog (snd (DWaveQPU u py qi rl' v' qc' w))
   \<and> fst (DWaveQPU u py qi rl v qc w) = fst (DWaveQPU u py qi rl' v' qc' w)
   \<and> cerr (snd (DWaveQPU u py qi rl v qc w)) = cerr (snd (DWaveQPU u py qi rl' v' qc' w))
   \<and> bridge_calls (snd (DWaveSA u py qi rl v qc w)) =
       bridge_calls (snd (DWaveSA u py qi rl' v' qc' w))
   \<and> pylog (snd (DWaveSA u py qi rl v qc w)) = pylog (snd (DWaveSA u py qi rl' v' qc' w))
   \<and> fst (DWaveSA u py qi rl v qc w) = fst (DWaveSA u py qi rl' v' qc' w)
   \<and> cerr (snd (DWaveSA u py qi rl v qc w)) = cerr (snd (DWaveSA u py qi rl' v' qc' w))"
  using DWaveQPU_ignores_budget_and_flags[of u py qi rl v qc w rl' v' qc']
    DWaveSA_ignores_budget_and_flags[of u py qi rl v qc w rl' v' qc']
  by (simp add: DWaveQPU_bridge_calls DWaveSA_bridge_calls)

end
